theory Spec2Isabelle
  imports Main "HOL-Library.Word"
begin

section \<open>JavaScript strings\<close>

text \<open>
  A JavaScript string is a sequence of UTF-16 code units. ASCII literals of the source are
  written with \<open>ascii\<close>; the Sinhala literals are given by their code units.
\<close>

type_synonym jsstring = "16 word list"

definition ascii :: "string \<Rightarrow> jsstring" where
  "ascii s = map of_char s"

text \<open>
  \<open>String.prototype.trim\<close> is a builtin of the platform. It removes, from both ends, the
  code units that ECMAScript calls WhiteSpace or LineTerminator: TAB, LF, VT, FF, CR, SPACE,
  NBSP, the other space separators of Unicode, LS, PS and the byte order mark.
\<close>

definition isWhiteSpace :: "16 word \<Rightarrow> bool" where
  "isWhiteSpace c \<longleftrightarrow>
     c \<in> {0x0009, 0x000A, 0x000B, 0x000C, 0x000D, 0x0020, 0x00A0, 0x1680,
          0x2000, 0x2001, 0x2002, 0x2003, 0x2004, 0x2005, 0x2006, 0x2007, 0x2008, 0x2009,
          0x200A, 0x2028, 0x2029, 0x202F, 0x205F, 0x3000, 0xFEFF}"

definition trim :: "jsstring \<Rightarrow> jsstring" where
  "trim s = rev (dropWhile isWhiteSpace (rev (dropWhile isWhiteSpace s)))"

text \<open>Truthiness of a string, and of an optional string (\<open>undefined\<close> is \<open>None\<close>).\<close>

definition truthy :: "jsstring option \<Rightarrow> bool" where
  "truthy t = (case t of None \<Rightarrow> False | Some s \<Rightarrow> s \<noteq> [])"

text \<open>An optional string inside a template literal: \<open>undefined\<close> prints as its name.\<close>

definition interpolate :: "jsstring option \<Rightarrow> jsstring" where
  "interpolate t = (case t of None \<Rightarrow> ascii ''undefined'' | Some s \<Rightarrow> s)"

definition startsWith :: "jsstring \<Rightarrow> jsstring \<Rightarrow> bool" where
  "startsWith s p \<longleftrightarrow> take (length p) s = p"

section \<open>Data model (types.ts)\<close>

datatype MessageRole = USER | MODEL | SYSTEM

record SearchResult =
  uri :: jsstring
  title :: jsstring

text \<open>The fields \<open>id\<close>, \<open>role\<close>, \<open>text\<close>, \<open>imageUrl\<close> and \<open>searchResults\<close> of a Message.\<close>

record Message =
  m_id :: jsstring
  m_role :: MessageRole
  m_text :: "jsstring option"
  m_imageUrl :: "jsstring option"
  m_searchResults :: "SearchResult list option"

record User =
  username :: jsstring

section \<open>The remote service (the @google/genai client)\<close>

text \<open>
  A chat response is taken as the parts of its first candidate, the empty list when
  \<open>candidates\<close>, its first element, \<open>content\<close> or \<open>parts\<close> is undefined. A part may carry a
  function call and a text. What the code reads of a response is
  \<open>response.candidates?.[0]?.content?.parts?.[0]\<close>, the first part only (\<open>firstPart\<close>).
\<close>

record Args =
  query :: "jsstring option"
  prompt :: "jsstring option"

record FunctionCall =
  name :: "jsstring option"
  args :: "Args option"

record Part =
  functionCall :: "FunctionCall option"
  p_text :: "jsstring option"

definition firstPart :: "Part list \<Rightarrow> Part option" where
  "firstPart ps = (case ps of [] \<Rightarrow> None | part # rest \<Rightarrow> Some part)"

text \<open>One entry of the history a chat is created with: \<open>{role, parts: [{text}]}\<close>.\<close>

record Content =
  c_role :: MessageRole
  parts :: "jsstring list"

text \<open>
  \<open>ai.models.generateContent\<close>: the code reads \<open>response.text\<close> and
  \<open>response.candidates?.[0]?.groundingMetadata?.groundingChunks\<close>; a chunk may have a
  \<open>web\<close> source.
\<close>

record GroundingChunk =
  web :: "SearchResult option"

record GenerateContentResponse =
  g_text :: "jsstring option"
  groundingChunks :: "GroundingChunk list option"

text \<open>\<open>ai.models.generateImages\<close>: \<open>response.generatedImages[i].image.imageBytes\<close>.\<close>

record Image =
  imageBytes :: "jsstring option"

record GeneratedImage =
  image :: "Image option"

record GenerateImagesResponse =
  generatedImages :: "GeneratedImage list option"

text \<open>
  The value built for \<open>functionResponsePayload\<close>: \<open>{summary, results}\<close> from the web search,
  \<open>{imageUrl}\<close> or \<open>{error}\<close> from the image generation, \<open>{time}\<close> from the clock.
\<close>

datatype Payload =
    SearchPayload (summary: "jsstring option") (results: "SearchResult list")
  | ImagePayload (imageUrl: jsstring)
  | ErrorPayload (error: jsstring)
  | TimePayload (time: jsstring)

text \<open>
  A thrown value: a fault the client library or the platform rejects with (network, quota,
  malformed response; named by its message), an \<open>Error\<close> made by this code with
  \<open>new Error(message)\<close>, a \<open>TypeError\<close> of a property read on \<open>undefined\<close>, or the
  \<open>SyntaxError\<close> of \<open>JSON.parse\<close>.
\<close>

datatype thrown = RemoteFault jsstring | Error jsstring | TypeError | SyntaxError

datatype request =
    SendMessage jsstring "Content list"
  | SendFunctionResponse "jsstring option" Payload
  | GenerateContent jsstring
  | GenerateImages "jsstring option"
  | ChatSendMessage jsstring

text \<open>
  The behaviour of the remote service is a parameter of the model: what each call returns
  or rejects with. The follow-up \<open>sendMessage\<close> of a chat is answered knowing the chat so far
  (the first message, the history, and the function response sent). \<open>toLocaleString\<close> is
  what \<open>new Date().toLocaleString('si-LK')\<close> prints at the time of the call.
\<close>

record Remote =
  sendMessage :: "jsstring \<Rightarrow> Content list \<Rightarrow> thrown + Part list"
  sendFunctionResponse ::
    "jsstring \<Rightarrow> Content list \<Rightarrow> jsstring option \<Rightarrow> Payload \<Rightarrow> thrown + Part list"
  generateContent :: "jsstring \<Rightarrow> thrown + GenerateContentResponse"
  generateImages :: "jsstring option \<Rightarrow> thrown + GenerateImagesResponse"
  toLocaleString :: jsstring

text \<open>What a run leaves behind besides its result: the remote calls made, the lines written
  with \<open>console.error\<close> (label and logged value), and the pages opened with \<open>window.open\<close>.\<close>

datatype effect = RemoteCall request | ConsoleError jsstring thrown | WindowOpen jsstring

section \<open>The assistant client with tools (the service of the Sinhala front end)\<close>

text \<open>The summary returned when the search call fails: "I am sorry, the search could not be done."\<close>

definition searchFailedSummary :: jsstring where
  "searchFailedSummary =
     [0x0DB8, 0x0DA7, 0x0020, 0x0D9A, 0x0DAB, 0x0D9C, 0x0DCF, 0x0DA7, 0x0DD4, 0x0DBA,
      0x0DD2, 0x002C, 0x0020, 0x0DC3, 0x0DD9, 0x0DC0, 0x0DD3, 0x0DB8, 0x0020, 0x0DC3,
      0x0DD2, 0x0DAF, 0x0DD4, 0x0020, 0x0D9A, 0x0DD2, 0x0DBB, 0x0DD3, 0x0DB8, 0x0DA7,
      0x0020, 0x0DB1, 0x0DDC, 0x0DC4, 0x0DD0, 0x0D9A, 0x0DD2, 0x0020, 0x0DC0, 0x0DD2,
      0x0DBA, 0x002E]"

text \<open>The two error texts of the image tool: "An image could not be generated." and
  "An error occurred while generating the image."\<close>

definition noImageError :: jsstring where
  "noImageError =
     [0x0DBB, 0x0DD6, 0x0DB4, 0x0DBA, 0x0D9A, 0x0DCA, 0x0020, 0x0DA2, 0x0DB1, 0x0DB1,
      0x0DBA, 0x0020, 0x0D9A, 0x0DD2, 0x0DBB, 0x0DD3, 0x0DB8, 0x0DA7, 0x0020, 0x0DB1,
      0x0DDC, 0x0DC4, 0x0DD0, 0x0D9A, 0x0DD2, 0x0020, 0x0DC0, 0x0DD2, 0x0DBA, 0x002E]"

definition imageFaultError :: jsstring where
  "imageFaultError =
     [0x0DBB, 0x0DD6, 0x0DB4, 0x0DBA, 0x0020, 0x0DA2, 0x0DB1, 0x0DB1, 0x0DBA, 0x0020,
      0x0D9A, 0x0DD2, 0x0DBB, 0x0DD3, 0x0DB8, 0x0DDA, 0x0DAF, 0x0DD3, 0x0020, 0x0DAF,
      0x0DDD, 0x0DC2, 0x0DBA, 0x0D9A, 0x0DCA, 0x0020, 0x0D87, 0x0DAD, 0x0DD2, 0x0DC0,
      0x0DD2, 0x0DBA, 0x002E]"

text \<open>The answer when the first response has neither function call nor text:
  "I am sorry, I could not understand that."\<close>

definition notUnderstoodText :: jsstring where
  "notUnderstoodText =
     [0x0DB8, 0x0DA7, 0x0020, 0x0D9A, 0x0DAB, 0x0D9C, 0x0DCF, 0x0DA7, 0x0DD4, 0x0DBA,
      0x0DD2, 0x002C, 0x0020, 0x0DB8, 0x0DA7, 0x0020, 0x0D91, 0x0DBA, 0x0020, 0x0DAD,
      0x0DDA, 0x0DBB, 0x0DD4, 0x0DB8, 0x0DCA, 0x0020, 0x0D9C, 0x0DD0, 0x0DB1, 0x0DD3,
      0x0DB8, 0x0DA7, 0x0020, 0x0DB1, 0x0DDC, 0x0DC4, 0x0DD0, 0x0D9A, 0x0DD2, 0x0020,
      0x0DC0, 0x0DD2, 0x0DBA, 0x002E]"

text \<open>
  \<open>performWebSearch\<close> (the prompt is the template literal \<open>searchContents\<close>, the query between
  double quotes): one \<open>generateContent\<close> call inside \<open>try\<close>; the chunks with a web source
  become the results, in the order returned. Any fault is logged and replaced by the fixed
  summary with no results.
\<close>

definition searchContents :: "jsstring option \<Rightarrow> jsstring" where
  "searchContents q =
     ascii ''Provide a concise, single-paragraph summary in Sinhala for the query: ''
       @ [0x0022] @ interpolate q @ [0x0022]"

definition performWebSearch :: "Remote \<Rightarrow> jsstring option \<Rightarrow> effect list \<times> Payload" where
  "performWebSearch remote q =
     (let contents = searchContents q
      in case generateContent remote contents of
           Inr response \<Rightarrow>
             (let rawChunks = (case groundingChunks response of None \<Rightarrow> [] | Some cs \<Rightarrow> cs)
              in ([RemoteCall (GenerateContent contents)],
                  SearchPayload (g_text response)
                    (map (\<lambda>chunk. the (web chunk)) (filter (\<lambda>chunk. web chunk \<noteq> None) rawChunks))))
         | Inl e \<Rightarrow>
             ([RemoteCall (GenerateContent contents),
               ConsoleError (ascii ''Error searching with Gemini:'') e],
              SearchPayload (Some searchFailedSummary) []))"

text \<open>
  \<open>performImageGeneration\<close>: one \<open>generateImages\<close> call inside \<open>try\<close>. With at least one
  generated image the payload is the data URI of the first; reading \<open>imageBytes\<close> of a missing
  \<open>image\<close> is a TypeError, caught like any fault of the call.
\<close>

definition performImageGeneration :: "Remote \<Rightarrow> jsstring option \<Rightarrow> effect list \<times> Payload" where
  "performImageGeneration remote p =
     (case generateImages remote p of
        Inr response \<Rightarrow>
          (case generatedImages response of
             Some (g # gs) \<Rightarrow>
               (case image g of
                  Some img \<Rightarrow>
                    ([RemoteCall (GenerateImages p)],
                     ImagePayload (ascii ''data:image/jpeg;base64,'' @ interpolate (imageBytes img)))
                | None \<Rightarrow>
                    ([RemoteCall (GenerateImages p),
                      ConsoleError (ascii ''Error generating image with Gemini:'') TypeError],
                     ErrorPayload imageFaultError))
           | _ \<Rightarrow> ([RemoteCall (GenerateImages p)], ErrorPayload noImageError))
      | Inl e \<Rightarrow>
          ([RemoteCall (GenerateImages p),
            ConsoleError (ascii ''Error generating image with Gemini:'') e],
           ErrorPayload imageFaultError))"

text \<open>The tests \<open>'results' in functionResponsePayload\<close> and \<open>'imageUrl' in functionResponsePayload\<close>.\<close>

fun hasResults :: "Payload \<Rightarrow> bool" where
  "hasResults (SearchPayload s rs) = True"
| "hasResults _ = False"

fun hasImageUrl :: "Payload \<Rightarrow> bool" where
  "hasImageUrl (ImagePayload u) = True"
| "hasImageUrl _ = False"

record AssistantResponse =
  r_text :: "jsstring option"
  r_imageUrl :: "jsstring option"
  r_searchResults :: "SearchResult list option"

text \<open>
  The tool called for a function call: the effects of the call and the payload, or the
  value thrown. Reading \<open>functionCall.args.query\<close> with \<open>args\<close> undefined is a TypeError,
  outside any \<open>try\<close>. An unknown name throws \<open>new Error(`Unknown function call: ${name}`)\<close>.
\<close>

definition callTool :: "Remote \<Rightarrow> FunctionCall \<Rightarrow> effect list \<times> (thrown + Payload)" where
  "callTool remote fc =
     (if name fc = Some (ascii ''searchTheWeb'') then
        (case args fc of
           None \<Rightarrow> ([], Inl TypeError)
         | Some a \<Rightarrow> (let (effs, payload) = performWebSearch remote (query a) in (effs, Inr payload)))
      else if name fc = Some (ascii ''generateImage'') then
        (case args fc of
           None \<Rightarrow> ([], Inl TypeError)
         | Some a \<Rightarrow> (let (effs, payload) = performImageGeneration remote (prompt a) in (effs, Inr payload)))
      else if name fc = Some (ascii ''getCurrentTime'') then
        ([], Inr (TimePayload (toLocaleString remote)))
      else
        ([], Inl (Error (ascii ''Unknown function call: '' @ interpolate (name fc)))))"

text \<open>
  \<open>getAssistantResponse\<close>: the first \<open>sendMessage\<close>; with a function call in the first part
  of the response (later parts are not read), the tool and the
  follow-up \<open>sendMessage\<close> carrying the function response, whose text (\<open>?? ''\<close>) is the final
  text, with the tool's byproduct attached; without one, the text of the first response
  (\<open>|| "..."\<close>). No call of the function body is inside a \<open>try\<close>: a fault of either
  \<open>sendMessage\<close> and the errors of \<open>callTool\<close> leave the function as thrown values.
\<close>

definition getAssistantResponse ::
  "Remote \<Rightarrow> jsstring \<Rightarrow> Content list \<Rightarrow> effect list \<times> (thrown + AssistantResponse)" where
  "getAssistantResponse remote message history =
     (case sendMessage remote message history of
        Inl e \<Rightarrow> ([RemoteCall (SendMessage message history)], Inl e)
      | Inr response \<Rightarrow>
          (case (case firstPart response of None \<Rightarrow> None | Some part \<Rightarrow> functionCall part) of
             Some fc \<Rightarrow>
               (case callTool remote fc of
                  (effs, Inl e) \<Rightarrow> (RemoteCall (SendMessage message history) # effs, Inl e)
                | (effs, Inr functionResponsePayload) \<Rightarrow>
                    (let sent = RemoteCall (SendMessage message history) # effs
                                  @ [RemoteCall (SendFunctionResponse (name fc) functionResponsePayload)]
                     in case sendFunctionResponse remote message history (name fc)
                               functionResponsePayload of
                          Inl e \<Rightarrow> (sent, Inl e)
                        | Inr result2 \<Rightarrow>
                            (let finalResponseText =
                                   (case (case firstPart result2 of None \<Rightarrow> None
                                          | Some part \<Rightarrow> p_text part) of
                                      None \<Rightarrow> [] | Some t \<Rightarrow> t);
                                 finalResponse =
                                   \<lparr>r_text = Some finalResponseText, r_imageUrl = None,
                                    r_searchResults = None\<rparr>;
                                 finalResponse1 =
                                   (if name fc = Some (ascii ''searchTheWeb'')
                                       \<and> hasResults functionResponsePayload
                                    then finalResponse\<lparr>r_searchResults :=
                                           Some (results functionResponsePayload)\<rparr>
                                    else finalResponse);
                                 finalResponse2 =
                                   (if name fc = Some (ascii ''generateImage'')
                                       \<and> hasImageUrl functionResponsePayload
                                    then finalResponse1\<lparr>r_imageUrl :=
                                           Some (imageUrl functionResponsePayload)\<rparr>
                                    else finalResponse1)
                             in (sent, Inr finalResponse2))))
           | None \<Rightarrow>
               (let text = (case firstPart response of None \<Rightarrow> None | Some part \<Rightarrow> p_text part)
                in ([RemoteCall (SendMessage message history)],
                    Inr \<lparr>r_text = Some (if truthy text then the text else notUnderstoodText),
                         r_imageUrl = None, r_searchResults = None\<rparr>))))"

section \<open>The application (the Sinhala front end)\<close>

text \<open>
  A text kept in \<open>localStorage\<close> matters to the code only through its truthiness and through
  what \<open>JSON.parse\<close> makes of it: it is the empty string, a non-empty text that \<open>JSON.parse\<close>
  rejects, or the JSON text of a value of the expected type (so \<open>JSON.stringify v\<close> is
  \<open>Json v\<close>). \<open>JSON.parse\<close> throws a SyntaxError on the first two. \<open>getItem\<close> of a missing key
  is \<open>null\<close>, here \<open>None\<close>.
\<close>

datatype 'a item = EmptyText | Unparseable | Json 'a

fun parseJSON :: "'a item \<Rightarrow> thrown + 'a" where
  "parseJSON EmptyText = Inl SyntaxError"
| "parseJSON Unparseable = Inl SyntaxError"
| "parseJSON (Json v) = Inr v"

record Credential =
  password :: jsstring

record SpeechSynthesisVoice =
  lang :: jsstring
  voiceURI :: jsstring

record SpeechSynthesisUtterance =
  u_text :: jsstring
  u_voice :: "SpeechSynthesisVoice option"
  u_lang :: jsstring

text \<open>
  The state: the React state of \<open>App\<close> (\<open>currentUser\<close> to \<open>ttsWarningShown\<close>), the two entries of
  \<open>localStorage\<close> (\<open>users\<close>, \<open>currentUser\<close>), whether \<open>window\<close> has \<open>speechSynthesis\<close>, the queue of
  utterances of the synthesiser, and the trace of remote calls and console errors.
\<close>

record State =
  currentUser :: "User option"
  messages :: "Message list"
  userInput :: jsstring
  isLoading :: bool
  status :: jsstring
  isListening :: bool
  isSpeakingEnabled :: bool
  voices :: "SpeechSynthesisVoice list"
  ttsWarningShown :: bool
  ls_users :: "(jsstring \<rightharpoonup> Credential) item option"
  ls_currentUser :: "User item option"
  speechSynthesis :: bool
  utterances :: "SpeechSynthesisUtterance list"
  trace :: "effect list"

text \<open>The two status lines, "Thinking..." and "Online".\<close>

definition statusThinking :: jsstring where
  "statusThinking =
     [0x0DC3, 0x0DD2, 0x0DAD, 0x0DB8, 0x0DD2, 0x0DB1, 0x0DCA, 0x002E, 0x002E, 0x002E]"

definition statusOnline :: jsstring where
  "statusOnline =
     [0x0DC3, 0x0DB6, 0x0DD0, 0x0DB3, 0x0DD2, 0x0020, 0x0D87, 0x0DAD]"

text \<open>The text of the model message appended when the assistant call throws:
  "I am sorry, an error occurred. Please try again."\<close>

definition assistantErrorText :: jsstring where
  "assistantErrorText =
     [0x0DB8, 0x0DA7, 0x0020, 0x0D9A, 0x0DAB, 0x0D9C, 0x0DCF, 0x0DA7, 0x0DD4, 0x0DBA,
      0x0DD2, 0x002C, 0x0020, 0x0DAF, 0x0DDD, 0x0DC2, 0x0DBA, 0x0D9A, 0x0DCA, 0x0020,
      0x0D87, 0x0DAD, 0x0DD2, 0x0DC0, 0x0DD2, 0x0DBA, 0x002E, 0x0020, 0x0D9A, 0x0DBB,
      0x0DD4, 0x0DAB, 0x0DCF, 0x0D9A, 0x0DBB, 0x0020, 0x0DB1, 0x0DD0, 0x0DC0, 0x0DAD,
      0x0020, 0x0D8B, 0x0DAD, 0x0DCA, 0x0DC3, 0x0DCF, 0x0DC4, 0x0020, 0x0D9A, 0x0DBB,
      0x0DB1, 0x0DCA, 0x0DB1, 0x002E]"

text \<open>The text of the system message that tells the user no Sinhala voice is installed.\<close>

definition ttsWarningText :: jsstring where
  "ttsWarningText =
     [0x0D9A, 0x0DAE, 0x0DB1, 0x0020, 0x0DB4, 0x0DCA, 0x200D, 0x0DBB, 0x0DAD, 0x0DD2,
      0x0DAF, 0x0DCF, 0x0DB1, 0x0DBA, 0x0020, 0x0DC3, 0x0DB3, 0x0DC4, 0x0DCF, 0x0020,
      0x0DC3, 0x0DD2, 0x0D82, 0x0DC4, 0x0DBD, 0x0020, 0x0DB7, 0x0DCF, 0x0DC2, 0x0DCF,
      0x0020, 0x0DB4, 0x0DD0, 0x0D9A, 0x0DDA, 0x0DA2, 0x0DBA, 0x0D9A, 0x0DCA, 0x0020,
      0x0D94, 0x0DB6, 0x0D9C, 0x0DDA, 0x0020, 0x0D8B, 0x0DB4, 0x0DCF, 0x0D82, 0x0D9C,
      0x0DBA, 0x0DDA, 0x0020, 0x0DC3, 0x0DCA, 0x0DAE, 0x0DCF, 0x0DB4, 0x0DB1, 0x0DBA,
      0x0020, 0x0D9A, 0x0DBB, 0x0020, 0x0DB1, 0x0DDC, 0x0DB8, 0x0DD0, 0x0DAD, 0x0DD2,
      0x0020, 0x0DB6, 0x0DC0, 0x0020, 0x0DB4, 0x0DD9, 0x0DB1, 0x0DDA, 0x002E, 0x0020,
      0x0DB4, 0x0DD2, 0x0DC5, 0x0DD2, 0x0DAD, 0x0DD4, 0x0DBB, 0x0DD4, 0x0020, 0x0DB4,
      0x0DD9, 0x0DC5, 0x0020, 0x0DBD, 0x0DD9, 0x0DC3, 0x0020, 0x0DAF, 0x0DD2, 0x0DC3,
      0x0DCA, 0x0DC0, 0x0DB1, 0x0DD4, 0x0020, 0x0D87, 0x0DAD, 0x002E]"

definition targetLang :: jsstring where
  "targetLang = ascii ''si-LK''"

definition warningMessage :: Message where
  "warningMessage =
     \<lparr>m_id = ascii ''tts-warning'', m_role = SYSTEM, m_text = Some ttsWarningText,
      m_imageUrl = None, m_searchResults = None\<rparr>"

text \<open>The voice \<open>speak\<close> picks: the first with the exact language tag, else the first whose
  tag starts with \<open>si\<close>.\<close>

definition selectedVoice :: "SpeechSynthesisVoice list \<Rightarrow> SpeechSynthesisVoice option" where
  "selectedVoice vs =
     (case find (\<lambda>voice. lang voice = targetLang) vs of
        Some v \<Rightarrow> Some v
      | None \<Rightarrow> find (\<lambda>voice. startsWith (lang voice) (ascii ''si'')) vs)"

text \<open>
  \<open>speak\<close>: nothing when speaking is switched off or the platform has no synthesiser.
  Otherwise the queue is cancelled; with a voice the utterance is queued, without one the
  warning message is appended once and \<open>ttsWarningShown\<close> set.
\<close>

definition speak :: "jsstring \<Rightarrow> State \<Rightarrow> State" where
  "speak txt s =
     (if \<not> isSpeakingEnabled s \<or> \<not> speechSynthesis s then s
      else
        (let s1 = s\<lparr>utterances := []\<rparr>
         in case selectedVoice (voices s) of
              Some v \<Rightarrow>
                s1\<lparr>utterances := utterances s1 @ [\<lparr>u_text = txt, u_voice = Some v, u_lang = targetLang\<rparr>]\<rparr>
            | None \<Rightarrow>
                (if \<not> ttsWarningShown s
                 then s1\<lparr>messages := messages s1 @ [warningMessage], ttsWarningShown := True\<rparr>
                 else s1)))"

definition handleLogin :: "User \<Rightarrow> State \<Rightarrow> State" where
  "handleLogin user s = s\<lparr>ls_currentUser := Some (Json user), currentUser := Some user\<rparr>"

definition handleLogout :: "State \<Rightarrow> State" where
  "handleLogout s = s\<lparr>ls_currentUser := None, currentUser := None, messages := []\<rparr>"

text \<open>
  The effect run on mount: it reads the \<open>currentUser\<close> entry; a truthy text is parsed and
  the user set, and a text \<open>JSON.parse\<close> rejects is logged and the entry removed.
\<close>

definition restore :: "State \<Rightarrow> State" where
  "restore s =
     (case ls_currentUser s of
        None \<Rightarrow> s
      | Some loggedInUserJson \<Rightarrow>
          (if loggedInUserJson = EmptyText then s
           else
             (case parseJSON loggedInUserJson of
                Inr user \<Rightarrow> s\<lparr>currentUser := Some user\<rparr>
              | Inl err \<Rightarrow>
                  s\<lparr>trace := trace s
                         @ [ConsoleError (ascii ''Failed to parse user from localStorage'') err],
                    ls_currentUser := None\<rparr>)))"

text \<open>
  The effect run when \<open>currentUser\<close> changes: with a user, the messages become the one
  greeting "Hello NAME! I am Madhu, your AI assistant. How can I help you today?".
\<close>

definition greetingPrefix :: jsstring where
  "greetingPrefix =
     [0x0D86, 0x0DBA, 0x0DD4, 0x0DB6, 0x0DDD, 0x0DC0, 0x0DB1, 0x0DCA, 0x0020]"

definition greetingSuffix :: jsstring where
  "greetingSuffix =
     [0x0021, 0x0020, 0x0DB8, 0x0DB8, 0x0020, 0x0DB8, 0x0DAF, 0x0DD4, 0x002C, 0x0020,
      0x0D94, 0x0DB6, 0x0DDA, 0x0020, 0x0041, 0x0049, 0x0020, 0x0DC3, 0x0DC4, 0x0DCF,
      0x0DBA, 0x0D9A, 0x002E, 0x0020, 0x0D85, 0x0DAF, 0x0020, 0x0DB8, 0x0DB8, 0x0020,
      0x0D94, 0x0DB6, 0x0DA7, 0x0020, 0x0D8B, 0x0DAF, 0x0DC0, 0x0DCA, 0x0020, 0x0D9A,
      0x0DC5, 0x0020, 0x0DC4, 0x0DD0, 0x0D9A, 0x0DCA, 0x0D9A, 0x0DDA, 0x0020, 0x0D9A,
      0x0DD9, 0x0DC3, 0x0DDA, 0x0DAF, 0x003F]"

definition greet :: "State \<Rightarrow> State" where
  "greet s =
     (case currentUser s of
        None \<Rightarrow> s
      | Some user \<Rightarrow>
          s\<lparr>messages :=
              [\<lparr>m_id = ascii ''init'', m_role = MODEL,
                m_text = Some (greetingPrefix @ username user @ greetingSuffix),
                m_imageUrl = None, m_searchResults = None\<rparr>]\<rparr>)"

text \<open>The history sent with a message: the user and model messages with a truthy text.\<close>

definition wireHistory :: "Message list \<Rightarrow> Content list" where
  "wireHistory ms =
     map (\<lambda>m. \<lparr>c_role = m_role m, parts = [the (m_text m)]\<rparr>)
       (filter (\<lambda>m. (m_role m = USER \<or> m_role m = MODEL) \<and> truthy (m_text m)) ms)"

text \<open>
  \<open>handleSendMessage\<close>, with the two readings of \<open>Date.now().toString()\<close> as \<open>now1\<close> and
  \<open>now2\<close>. A blank text returns at once. Otherwise the user message is appended, the
  assistant is called on the history of the messages before it, and the answer (or, when the
  call throws, the fixed error text after logging) is appended and spoken; \<open>finally\<close> resets
  the loading flag and the status.
\<close>

definition handleSendMessage :: "Remote \<Rightarrow> jsstring \<Rightarrow> jsstring \<Rightarrow> jsstring \<Rightarrow> State \<Rightarrow> State" where
  "handleSendMessage remote now1 now2 txt s =
     (if trim txt = [] then s
      else
        (let userMessage =
               \<lparr>m_id = now1, m_role = USER, m_text = Some txt, m_imageUrl = None,
                m_searchResults = None\<rparr>;
             s1 = s\<lparr>messages := messages s @ [userMessage], userInput := [], isLoading := True,
                    status := statusThinking\<rparr>;
             history = wireHistory (messages s);
             (effs, r) = getAssistantResponse remote txt history;
             s2 = s1\<lparr>trace := trace s1 @ effs\<rparr>;
             s3 =
               (case r of
                  Inr response \<Rightarrow>
                    (let finalModelMessage =
                           \<lparr>m_id = now2 @ ascii ''-model'', m_role = MODEL,
                            m_text = r_text response, m_imageUrl = r_imageUrl response,
                            m_searchResults = r_searchResults response\<rparr>;
                         s' = s2\<lparr>messages := messages s2 @ [finalModelMessage]\<rparr>
                     in if truthy (m_text finalModelMessage)
                        then speak (the (m_text finalModelMessage)) s' else s')
                | Inl e \<Rightarrow>
                    (let s' = s2\<lparr>trace := trace s2 @ [ConsoleError (ascii ''Error with assistant:'') e]\<rparr>;
                         errorMessage =
                           \<lparr>m_id = now2 @ ascii ''-model'', m_role = MODEL,
                            m_text = Some assistantErrorText, m_imageUrl = None,
                            m_searchResults = None\<rparr>;
                         s'' = s'\<lparr>messages := messages s' @ [errorMessage]\<rparr>
                     in if truthy (m_text errorMessage)
                        then speak (the (m_text errorMessage)) s'' else s''))
         in s3\<lparr>isLoading := False, status := statusOnline\<rparr>))"

text \<open>
  A turn in two phases. \<open>handleSendMessage\<close> is an async function: it runs up to its
  \<open>await\<close>, and the rest runs when the assistant call settles; other handlers can run in
  between. The function called is the callback of the render it was taken from: its
  \<open>messages\<close> and its \<open>speak\<close>, with the \<open>voices\<close>, \<open>isSpeakingEnabled\<close> and \<open>ttsWarningShown\<close> that
  \<open>speak\<close> closed over, are those of the state at the call. A \<open>Turn\<close> keeps what the pending
  call holds: the text, the history and the values inside its \<open>speak\<close>.
\<close>

record Turn =
  t_text :: jsstring
  t_history :: "Content list"
  t_voices :: "SpeechSynthesisVoice list"
  t_isSpeakingEnabled :: bool
  t_ttsWarningShown :: bool

text \<open>
  The \<open>speak\<close> a pending turn holds: it decides with the captured values, reads \<open>window\<close> as
  it is now, and its state updates (\<open>setMessages(prev => ...)\<close>, \<open>setTtsWarningShown(true)\<close>)
  apply to the state as it is now.
\<close>

definition speakCaptured :: "Turn \<Rightarrow> jsstring \<Rightarrow> State \<Rightarrow> State" where
  "speakCaptured turn txt s =
     (if \<not> t_isSpeakingEnabled turn \<or> \<not> speechSynthesis s then s
      else
        (let s1 = s\<lparr>utterances := []\<rparr>
         in case selectedVoice (t_voices turn) of
              Some v \<Rightarrow>
                s1\<lparr>utterances := utterances s1 @ [\<lparr>u_text = txt, u_voice = Some v, u_lang = targetLang\<rparr>]\<rparr>
            | None \<Rightarrow>
                (if \<not> t_ttsWarningShown turn
                 then s1\<lparr>messages := messages s1 @ [warningMessage], ttsWarningShown := True\<rparr>
                 else s1)))"

text \<open>\<open>handleSendMessage\<close> up to its \<open>await\<close>: nothing for a blank text; otherwise the user
  message is appended, the loading flag and status set, and the turn is pending.\<close>

definition beginTurn :: "jsstring \<Rightarrow> jsstring \<Rightarrow> State \<Rightarrow> Turn option \<times> State" where
  "beginTurn now1 txt s =
     (if trim txt = [] then (None, s)
      else
        (let userMessage =
               \<lparr>m_id = now1, m_role = USER, m_text = Some txt, m_imageUrl = None,
                m_searchResults = None\<rparr>
         in (Some \<lparr>t_text = txt, t_history = wireHistory (messages s), t_voices = voices s,
                   t_isSpeakingEnabled = isSpeakingEnabled s,
                   t_ttsWarningShown = ttsWarningShown s\<rparr>,
             s\<lparr>messages := messages s @ [userMessage], userInput := [], isLoading := True,
                status := statusThinking\<rparr>)))"

text \<open>\<open>handleSendMessage\<close> from its \<open>await\<close> on, when the assistant call of the pending turn
  settles with what \<open>remote\<close> answers: \<open>try\<close>, \<open>catch\<close> and \<open>finally\<close> on the state as it is
  then.\<close>

definition settleTurn :: "Remote \<Rightarrow> jsstring \<Rightarrow> Turn \<Rightarrow> State \<Rightarrow> State" where
  "settleTurn remote now2 turn s =
     (let (effs, r) = getAssistantResponse remote (t_text turn) (t_history turn);
          s2 = s\<lparr>trace := trace s @ effs\<rparr>;
          s3 =
            (case r of
               Inr response \<Rightarrow>
                 (let finalModelMessage =
                        \<lparr>m_id = now2 @ ascii ''-model'', m_role = MODEL,
                         m_text = r_text response, m_imageUrl = r_imageUrl response,
                         m_searchResults = r_searchResults response\<rparr>;
                      s' = s2\<lparr>messages := messages s2 @ [finalModelMessage]\<rparr>
                  in if truthy (m_text finalModelMessage)
                     then speakCaptured turn (the (m_text finalModelMessage)) s' else s')
             | Inl e \<Rightarrow>
                 (let s' = s2\<lparr>trace := trace s2 @ [ConsoleError (ascii ''Error with assistant:'') e]\<rparr>;
                      errorMessage =
                        \<lparr>m_id = now2 @ ascii ''-model'', m_role = MODEL,
                         m_text = Some assistantErrorText, m_imageUrl = None,
                         m_searchResults = None\<rparr>;
                      s'' = s'\<lparr>messages := messages s' @ [errorMessage]\<rparr>
                  in if truthy (m_text errorMessage)
                     then speakCaptured turn (the (m_text errorMessage)) s'' else s''))
      in s3\<lparr>isLoading := False, status := statusOnline\<rparr>)"

section \<open>The login form (Auth)\<close>

text \<open>
  The four messages \<open>setError\<close> shows: "user name and password cannot be empty"
  (\<open>ValidationError\<close>), "this user name is already in use" (\<open>DuplicateUserError\<close>), "user name or
  password is wrong" (\<open>InvalidCredentialsError\<close>) and "an unexpected error occurred"
  (\<open>UnexpectedError\<close>, the \<open>catch\<close> of both handlers).
\<close>

datatype AuthError = ValidationError | DuplicateUserError | InvalidCredentialsError | UnexpectedError

text \<open>\<open>JSON.parse(localStorage.getItem('users') || '{}')\<close>: a missing or empty entry reads as
  the empty object.\<close>

definition parseUsers :: "State \<Rightarrow> thrown + (jsstring \<rightharpoonup> Credential)" where
  "parseUsers s =
     parseJSON (case ls_users s of
                  None \<Rightarrow> Json Map.empty
                | Some stored \<Rightarrow> (if stored = EmptyText then Json Map.empty else stored))"

text \<open>
  The test \<open>users[username]\<close> on the parsed object: an own property holds a credential
  object, and a name found on \<open>Object.prototype\<close> holds a function (\<open>__proto__\<close>: the
  prototype itself); all of these are truthy. An inherited value has no \<open>password\<close>.
\<close>

definition objectPrototypeKeys :: "jsstring list" where
  "objectPrototypeKeys =
     map ascii
       [''constructor'', ''hasOwnProperty'', ''isPrototypeOf'', ''propertyIsEnumerable'',
        ''toLocaleString'', ''toString'', ''valueOf'', ''__proto__'', ''__defineGetter__'',
        ''__defineSetter__'', ''__lookupGetter__'', ''__lookupSetter__'']"

definition hasTruthyProperty :: "(jsstring \<rightharpoonup> Credential) \<Rightarrow> jsstring \<Rightarrow> bool" where
  "hasTruthyProperty users k \<longleftrightarrow> users k \<noteq> None \<or> k \<in> set objectPrototypeKeys"

text \<open>
  \<open>handleSignup\<close> and \<open>handleLogin\<close> of the form (here \<open>handleLoginForm\<close>), on the field values
  \<open>username\<close> and \<open>password\<close>: the error shown, or the user passed to \<open>onLogin\<close> (the
  application's \<open>handleLogin\<close>), and the state after.
\<close>

definition handleSignup :: "jsstring \<Rightarrow> jsstring \<Rightarrow> State \<Rightarrow> (AuthError + User) \<times> State" where
  "handleSignup uname pw s =
     (if trim uname = [] \<or> trim pw = [] then (Inl ValidationError, s)
      else
        (case parseUsers s of
           Inl err \<Rightarrow> (Inl UnexpectedError, s\<lparr>trace := trace s @ [ConsoleError [] err]\<rparr>)
         | Inr users \<Rightarrow>
             (if hasTruthyProperty users uname then (Inl DuplicateUserError, s)
              else
                (let users' = users(uname \<mapsto> \<lparr>password = pw\<rparr>);
                     s' = s\<lparr>ls_users := Some (Json users')\<rparr>
                 in (Inr \<lparr>username = uname\<rparr>, handleLogin \<lparr>username = uname\<rparr> s')))))"

definition handleLoginForm :: "jsstring \<Rightarrow> jsstring \<Rightarrow> State \<Rightarrow> (AuthError + User) \<times> State" where
  "handleLoginForm uname pw s =
     (if trim uname = [] \<or> trim pw = [] then (Inl ValidationError, s)
      else
        (case parseUsers s of
           Inl err \<Rightarrow> (Inl UnexpectedError, s\<lparr>trace := trace s @ [ConsoleError [] err]\<rparr>)
         | Inr users \<Rightarrow>
             (if hasTruthyProperty users uname
                 \<and> (case users uname of Some credential \<Rightarrow> password credential = pw
                      | None \<Rightarrow> False)
              then (Inr \<lparr>username = uname\<rparr>, handleLogin \<lparr>username = uname\<rparr> s)
              else (Inl InvalidCredentialsError, s))))"

text \<open>The credential the store keeps for a user name: the own property \<open>users[username]\<close> of
  the parsed store, if the store parses and has one.\<close>

definition storedCredential :: "State \<Rightarrow> jsstring \<Rightarrow> Credential option" where
  "storedCredential s uname = (case parseUsers s of Inl err \<Rightarrow> None | Inr users \<Rightarrow> users uname)"

section \<open>The bilingual front end (App.tsx and services/geminiService.ts)\<close>

text \<open>
  The service of the bilingual front end talks to one module-level chat without tools and
  reads \<open>response.text\<close>; its behaviour is again a parameter. \<open>date_toLocaleString\<close> is what
  \<open>new Date().toLocaleString()\<close> prints.
\<close>

record Gemini =
  chat_sendMessage :: "jsstring \<Rightarrow> thrown + jsstring option"
  models_generateContent :: "jsstring \<Rightarrow> thrown + GenerateContentResponse"
  models_generateImages :: "jsstring \<Rightarrow> thrown + GenerateImagesResponse"
  date_toLocaleString :: jsstring

definition sendMessageToGemini :: "Gemini \<Rightarrow> jsstring \<Rightarrow> effect list \<times> jsstring option" where
  "sendMessageToGemini gemini message =
     (case chat_sendMessage gemini message of
        Inr responseText \<Rightarrow> ([RemoteCall (ChatSendMessage message)], responseText)
      | Inl e \<Rightarrow>
          ([RemoteCall (ChatSendMessage message),
            ConsoleError (ascii ''Error sending message to Gemini:'') e],
           Some (ascii ''I'm sorry, I encountered an error. Please try again.'')))"

definition searchWithGemini ::
  "Gemini \<Rightarrow> jsstring \<Rightarrow> effect list \<times> jsstring option \<times> SearchResult list" where
  "searchWithGemini gemini q =
     (case models_generateContent gemini q of
        Inr response \<Rightarrow>
          (let rawChunks = (case groundingChunks response of None \<Rightarrow> [] | Some cs \<Rightarrow> cs)
           in ([RemoteCall (GenerateContent q)],
               g_text response,
               map (\<lambda>chunk. the (web chunk)) (filter (\<lambda>chunk. web chunk \<noteq> None) rawChunks)))
      | Inl e \<Rightarrow>
          ([RemoteCall (GenerateContent q), ConsoleError (ascii ''Error searching with Gemini:'') e],
           Some (ascii ''I'm sorry, I couldn't perform the search.''), []))"

text \<open>\<open>generateImageWithGemini\<close> returns the data URI, or \<open>null\<close> (\<open>None\<close>) when no image came
  back or the call failed.\<close>

definition generateImageWithGemini :: "Gemini \<Rightarrow> jsstring \<Rightarrow> effect list \<times> jsstring option" where
  "generateImageWithGemini gemini p =
     (case models_generateImages gemini p of
        Inr response \<Rightarrow>
          (case generatedImages response of
             Some (g # gs) \<Rightarrow>
               (case image g of
                  Some img \<Rightarrow>
                    ([RemoteCall (GenerateImages (Some p))],
                     Some (ascii ''data:image/jpeg;base64,'' @ interpolate (imageBytes img)))
                | None \<Rightarrow>
                    ([RemoteCall (GenerateImages (Some p)),
                      ConsoleError (ascii ''Error generating image with Gemini:'') TypeError],
                     None))
           | _ \<Rightarrow> ([RemoteCall (GenerateImages (Some p))], None))
      | Inl e \<Rightarrow>
          ([RemoteCall (GenerateImages (Some p)),
            ConsoleError (ascii ''Error generating image with Gemini:'') e],
           None))"

text \<open>
  The command patterns are regular expressions with the flag \<open>i\<close> and ASCII letters. A code
  unit of the input matches a letter of the pattern when both have the same upper-case form;
  Canonicalize of ECMAScript never maps a code unit of 128 or more to one below 128, so only
  the ASCII letters have another case here. \<open>ciPrefix p s\<close> matches the literal \<open>p\<close> at
  the start of \<open>s\<close> and returns the rest.
\<close>

definition canonicalize :: "16 word \<Rightarrow> 16 word" where
  "canonicalize c = (if 0x61 \<le> c \<and> c \<le> 0x7A then c - 0x20 else c)"

fun ciPrefix :: "jsstring \<Rightarrow> jsstring \<Rightarrow> jsstring option" where
  "ciPrefix [] s = Some s"
| "ciPrefix (p # ps) [] = None"
| "ciPrefix (p # ps) (c # cs) =
     (if canonicalize p = canonicalize c then ciPrefix ps cs else None)"

text \<open>The group \<open>(.+)\<close> at the end of a pattern: the longest run of code units other than
  line terminators, which must not be empty.\<close>

definition isLineTerminator :: "16 word \<Rightarrow> bool" where
  "isLineTerminator c \<longleftrightarrow> c \<in> {0x000A, 0x000D, 0x2028, 0x2029}"

definition dotPlus :: "jsstring \<Rightarrow> jsstring option" where
  "dotPlus s =
     (let m = takeWhile (\<lambda>c. \<not> isLineTerminator c) s in if m = [] then None else Some m)"

text \<open>The first alternative, in order, after which the rest of the pattern matches.\<close>

fun firstMatch :: "(jsstring \<Rightarrow> jsstring option) \<Rightarrow> jsstring list \<Rightarrow> jsstring \<Rightarrow> jsstring option" where
  "firstMatch k [] s = None"
| "firstMatch k (a # as) s =
     (case (case ciPrefix a s of None \<Rightarrow> None | Some r \<Rightarrow> k r) of
        Some m \<Rightarrow> Some m
      | None \<Rightarrow> firstMatch k as s)"

text \<open>\<open>/^(?:generate|create|make) an? image of (.+)/i\<close>, with the text of group 1. The
  optional \<open>n\<close> is tried first, then skipped.\<close>

definition imageMatch :: "jsstring \<Rightarrow> jsstring option" where
  "imageMatch s =
     firstMatch
       (\<lambda>r. case ciPrefix (ascii '' a'') r of
               None \<Rightarrow> None
             | Some r1 \<Rightarrow>
                 firstMatch
                   (\<lambda>r2. case ciPrefix (ascii '' image of '') r2 of
                            None \<Rightarrow> None
                          | Some r3 \<Rightarrow> dotPlus r3)
                   [ascii ''n'', []] r1)
       [ascii ''generate'', ascii ''create'', ascii ''make''] s"

text \<open>\<open>/^open (.+)/i\<close>, with the text of group 1.\<close>

definition openMatch :: "jsstring \<Rightarrow> jsstring option" where
  "openMatch s = firstMatch dotPlus [ascii ''open ''] s"

text \<open>\<open>/what time is it|date and time/i\<close>, anywhere in the text.\<close>

fun timeMatch :: "jsstring \<Rightarrow> bool" where
  "timeMatch [] = False"
| "timeMatch (c # cs) =
     (firstMatch Some [ascii ''what time is it'', ascii ''date and time''] (c # cs) \<noteq> None
      \<or> timeMatch cs)"

text \<open>\<open>/^(what is|who is|latest news about|search for)/i\<close>.\<close>

definition searchMatch :: "jsstring \<Rightarrow> bool" where
  "searchMatch s \<longleftrightarrow>
     firstMatch Some
       [ascii ''what is'', ascii ''who is'', ascii ''latest news about'', ascii ''search for''] s
     \<noteq> None"

text \<open>
  \<open>speak\<close> of the bilingual front end: with a synthesiser, the utterance is queued with the
  exact-locale voice of the platform, if there is one, and the language \<open>si-LK\<close>.
\<close>

definition speakBilingual :: "jsstring \<Rightarrow> State \<Rightarrow> State" where
  "speakBilingual txt s =
     (if speechSynthesis s
      then s\<lparr>utterances := utterances s
                @ [\<lparr>u_text = txt, u_voice = find (\<lambda>voice. lang voice = ascii ''si-LK'') (voices s),
                    u_lang = ascii ''si-LK''\<rparr>]\<rparr>
      else s)"

text \<open>
  The command routing of the bilingual \<open>handleSendMessage\<close> (its chain of \<open>if\<close> and
  \<open>else if\<close>): the answer, a text with possibly an image URL or search results, and the state
  after. \<open>nowSys\<close> is the reading of \<open>Date.now().toString()\<close> for the system message.
\<close>

definition routeCommand ::
  "Gemini \<Rightarrow> jsstring \<Rightarrow> jsstring \<Rightarrow> State
     \<Rightarrow> (jsstring option \<times> jsstring option \<times> SearchResult list option) \<times> State" where
  "routeCommand gemini nowSys txt s =
     (case imageMatch txt of
        Some subject \<Rightarrow>
          (let s1 = s\<lparr>status := ascii ''Generating image: '' @ subject\<rparr>;
               (effs, url) = generateImageWithGemini gemini subject;
               s2 = s1\<lparr>trace := trace s1 @ effs\<rparr>
           in if truthy url
              then ((Some (ascii ''Here is an image of '' @ subject), url, None), s2)
              else ((Some (ascii ''I'm sorry, I couldn't generate the image.''), None, None), s2))
      | None \<Rightarrow>
     (case openMatch txt of
        Some target \<Rightarrow>
          (let url0 = trim target;
               url = (if \<not> startsWith url0 (ascii ''http'') then ascii ''https://'' @ url0 else url0);
               s1 = s\<lparr>trace := trace s @ [WindowOpen url]\<rparr>;
               s2 = s1\<lparr>messages := messages s1
                        @ [\<lparr>m_id = nowSys @ ascii ''-sys'', m_role = SYSTEM,
                            m_text = Some (ascii ''Navigating to '' @ url), m_imageUrl = None,
                            m_searchResults = None\<rparr>]\<rparr>
           in ((Some (ascii ''Opening '' @ target @ ascii ''...''), None, None), s2))
      | None \<Rightarrow>
     (if timeMatch txt then
        ((Some (ascii ''The current date and time is: '' @ date_toLocaleString gemini), None, None), s)
      else if searchMatch txt then
        (let s1 = s\<lparr>status := ascii ''Searching for: '' @ txt\<rparr>;
             (effs, responseText, found) = searchWithGemini gemini txt
         in ((responseText, None, Some found), s1\<lparr>trace := trace s1 @ effs\<rparr>))
      else
        (let s1 = s\<lparr>status := ascii ''Thinking...''\<rparr>;
             (effs, responseText) = sendMessageToGemini gemini txt
         in ((responseText, None, None), s1\<lparr>trace := trace s1 @ effs\<rparr>)))))"

text \<open>
  \<open>handleSendMessage\<close> of the bilingual front end. Of the state it uses the messages, the
  input, the loading flag, the status and the listening flag, and of the platform the
  voices, the synthesiser and the trace. \<open>now1\<close> and \<open>now2\<close> are the readings of
  \<open>Date.now().toString()\<close> for the user message and the model message.
\<close>

definition handleSendMessageBilingual ::
  "Gemini \<Rightarrow> jsstring \<Rightarrow> jsstring \<Rightarrow> jsstring \<Rightarrow> jsstring \<Rightarrow> State \<Rightarrow> State" where
  "handleSendMessageBilingual gemini now1 nowSys now2 txt s =
     (if trim txt = [] then s
      else
        (let userMessage =
               \<lparr>m_id = now1, m_role = USER, m_text = Some txt, m_imageUrl = None,
                m_searchResults = None\<rparr>;
             s1 = s\<lparr>messages := messages s @ [userMessage], userInput := [], isLoading := True\<rparr>;
             ((responseText, url, found), s2) = routeCommand gemini nowSys txt s1;
             finalModelMessage =
               \<lparr>m_id = now2 @ ascii ''-model'', m_role = MODEL, m_text = responseText,
                m_imageUrl = url, m_searchResults = found\<rparr>;
             s3 = s2\<lparr>messages := messages s2 @ [finalModelMessage]\<rparr>;
             s4 = (if truthy (m_text finalModelMessage)
                   then speakBilingual (the (m_text finalModelMessage)) s3 else s3)
         in s4\<lparr>isLoading := False,
               status := (if isListening s then ascii ''Listening continuously...''
                          else ascii ''Online'')\<rparr>))"

section \<open>Inputs for the examples\<close>

text \<open>
  The state when \<open>App\<close> mounts: the initial values of its \<open>useState\<close> calls, over a given
  \<open>localStorage\<close> and platform, with nothing spoken or logged yet.
\<close>

definition initialState ::
  "(jsstring \<rightharpoonup> Credential) item option \<Rightarrow> User item option \<Rightarrow> bool \<Rightarrow> State" where
  "initialState storedUsers storedUser synth =
     \<lparr>currentUser = None, messages = [], userInput = [], isLoading = False,
      status = statusOnline, isListening = False, isSpeakingEnabled = True, voices = [],
      ttsWarningShown = False, ls_users = storedUsers, ls_currentUser = storedUser,
      speechSynthesis = synth, utterances = [], trace = []\<rparr>"

text \<open>A remote service that answers every call of a kind with the same outcome.\<close>

definition scriptedRemote ::
  "thrown + Part list \<Rightarrow> thrown + Part list \<Rightarrow> thrown + GenerateContentResponse
     \<Rightarrow> thrown + GenerateImagesResponse \<Rightarrow> jsstring \<Rightarrow> Remote" where
  "scriptedRemote first followUp search images clock =
     \<lparr>sendMessage = (\<lambda>message history. first),
      sendFunctionResponse = (\<lambda>message history fname payload. followUp),
      generateContent = (\<lambda>contents. search),
      generateImages = (\<lambda>p. images),
      toLocaleString = clock\<rparr>"

text \<open>A credential store with the one user \<open>alice\<close>, whose password is \<open>secret\<close>.\<close>

definition aliceStore :: "(jsstring \<rightharpoonup> Credential) item option" where
  "aliceStore = Some (Json [ascii ''alice'' \<mapsto> \<lparr>password = ascii ''secret''\<rparr>])"

section \<open>The wire history as the specification words it\<close>

text \<open>
  Following the specification's words for the history sent to the remote call: the messages
  whose role is user or model and whose text field is present, in order, each as
  \<open>{role, parts: [{text}]}\<close>.
\<close>

definition historyAsStated :: "Message list \<Rightarrow> Content list" where
  "historyAsStated ms =
     map (\<lambda>m. \<lparr>c_role = m_role m, parts = [the (m_text m)]\<rparr>)
       (filter (\<lambda>m. (m_role m = USER \<or> m_role m = MODEL) \<and> m_text m \<noteq> None) ms)"

section \<open>Sessions and the error log\<close>

text \<open>
  What happens during the life of \<open>App\<close>, one handler run at a time: a call of
  \<open>handleSendMessage\<close> runs to its \<open>await\<close> (\<open>Begin\<close>: from the form, or from the recogniser's
  \<open>onresult\<close>, which does not look at the loading flag), the assistant call of a pending
  turn settles (\<open>Settle\<close>, by the position of the turn among the pending ones), the platform
  reports its voices (\<open>loadVoices\<close>), the speaker button, a login and a logout (each followed
  by the effect on \<open>currentUser\<close>). A session state is the state with the pending turns.
\<close>

datatype event =
    Begin jsstring jsstring
  | Settle nat Remote jsstring
  | LoadVoices "SpeechSynthesisVoice list"
  | ToggleSpeaking
  | Login User
  | Logout

fun step :: "event \<Rightarrow> State \<times> Turn list \<Rightarrow> State \<times> Turn list" where
  "step (Begin now1 txt) (s, pending) =
     (case beginTurn now1 txt s of
        (None, s') \<Rightarrow> (s', pending)
      | (Some turn, s') \<Rightarrow> (s', pending @ [turn]))"
| "step (Settle i remote now2) (s, pending) =
     (if i < length pending
      then (settleTurn remote now2 (pending ! i) s, take i pending @ drop (Suc i) pending)
      else (s, pending))"
| "step (LoadVoices vs) (s, pending) = (s\<lparr>voices := vs\<rparr>, pending)"
| "step ToggleSpeaking (s, pending) = (s\<lparr>isSpeakingEnabled := \<not> isSpeakingEnabled s\<rparr>, pending)"
| "step (Login user) (s, pending) = (greet (handleLogin user s), pending)"
| "step Logout (s, pending) = (greet (handleLogout s), pending)"

fun run :: "event list \<Rightarrow> State \<times> Turn list \<Rightarrow> State \<times> Turn list" where
  "run [] c = c"
| "run (e # es) c = run es (step e c)"

text \<open>The number of voice-unavailable notices among the messages.\<close>

definition noticeCount :: "State \<Rightarrow> nat" where
  "noticeCount s = length (filter (\<lambda>m. m = warningMessage) (messages s))"

text \<open>The errors logged by the \<open>catch\<close> of \<open>handleSendMessage\<close>, oldest first: the values
  written to the console under the label \<open>Error with assistant:\<close>.\<close>

fun loggedBy :: "effect list \<Rightarrow> thrown list" where
  "loggedBy [] = []"
| "loggedBy (ConsoleError label e # effs) =
     (if label = ascii ''Error with assistant:'' then e # loggedBy effs else loggedBy effs)"
| "loggedBy (RemoteCall req # effs) = loggedBy effs"
| "loggedBy (WindowOpen url # effs) = loggedBy effs"

definition assistantErrors :: "State \<Rightarrow> thrown list" where
  "assistantErrors s = loggedBy (trace s)"

text \<open>A Sinhala voice, a voice of another Sinhala locale, and an English voice.\<close>

definition voiceSiLK :: SpeechSynthesisVoice where
  "voiceSiLK = \<lparr>lang = ascii ''si-LK'', voiceURI = ascii ''Sinhala''\<rparr>"

definition voiceSi :: SpeechSynthesisVoice where
  "voiceSi = \<lparr>lang = ascii ''si'', voiceURI = ascii ''Sinhala (generic)''\<rparr>"

definition voiceEnUS :: SpeechSynthesisVoice where
  "voiceEnUS = \<lparr>lang = ascii ''en-US'', voiceURI = ascii ''English''\<rparr>"

text \<open>A first part that asks for a tool, and a part that carries a text.\<close>

definition toolCall :: "string \<Rightarrow> Args option \<Rightarrow> Part" where
  "toolCall n a = \<lparr>functionCall = Some \<lparr>name = Some (ascii n), args = a\<rparr>, p_text = None\<rparr>"

definition textPart :: "jsstring \<Rightarrow> Part" where
  "textPart t = \<lparr>functionCall = None, p_text = Some t\<rparr>"

text \<open>A remote service whose first response asks for the given tool and whose other calls
  have the given outcomes.\<close>

definition toolRemote ::
  "string \<Rightarrow> Args option \<Rightarrow> thrown + Part list \<Rightarrow> thrown + GenerateContentResponse
     \<Rightarrow> thrown + GenerateImagesResponse \<Rightarrow> Remote" where
  "toolRemote n a followUp search images =
     scriptedRemote (Inr [toolCall n a]) followUp search images (ascii ''2024-01-01 10:00'')"

text \<open>A fault of the network.\<close>

definition networkFault :: thrown where
  "networkFault = RemoteFault (ascii ''network'')"

text \<open>The state at mount with speaking switched off and one exact-locale voice installed.\<close>

definition mutedState :: State where
  "mutedState = (initialState None None True)\<lparr>isSpeakingEnabled := False, voices := [voiceSiLK]\<rparr>"

text \<open>The state at mount with the given voices installed.\<close>

definition withVoices :: "SpeechSynthesisVoice list \<Rightarrow> State" where
  "withVoices vs = (initialState None None True)\<lparr>voices := vs\<rparr>"

text \<open>A model message whose text is the empty string.\<close>

definition emptyTextMessage :: Message where
  "emptyTextMessage =
     \<lparr>m_id = ascii ''2-model'', m_role = MODEL, m_text = Some [], m_imageUrl = None,
      m_searchResults = None\<rparr>"

text \<open>The user message of a turn that asks for the time, and a turn that asks for news.\<close>

definition timeQuestion :: Message where
  "timeQuestion =
     \<lparr>m_id = ascii ''1'', m_role = USER, m_text = Some (ascii ''time?''), m_imageUrl = None,
      m_searchResults = None\<rparr>"

definition newsArgs :: "Args option" where
  "newsArgs = Some \<lparr>query = Some (ascii ''news''), prompt = None\<rparr>"

text \<open>A state with a notice, a question and an answer with empty text in the messages, on a
  platform without a synthesiser.\<close>

definition chatState :: State where
  "chatState =
     (initialState None None False)\<lparr>messages := [warningMessage, timeQuestion, emptyTextMessage]\<rparr>"



text \<open>A service of the bilingual front end that answers every call of a kind with the same
  outcome.\<close>

definition scriptedGemini ::
  "thrown + jsstring option \<Rightarrow> thrown + GenerateContentResponse
     \<Rightarrow> thrown + GenerateImagesResponse \<Rightarrow> Gemini" where
  "scriptedGemini chat search images =
     \<lparr>chat_sendMessage = (\<lambda>message. chat),
      models_generateContent = (\<lambda>contents. search),
      models_generateImages = (\<lambda>p. images),
      date_toLocaleString = ascii ''1/1/2024, 10:00:00 AM''\<rparr>"

text \<open>A remote service whose first call fails, one whose search fails inside the search
  tool while the chat goes on, and a bilingual service whose chat fails.\<close>

definition downRemote :: Remote where
  "downRemote =
     scriptedRemote (Inl networkFault) (Inl networkFault) (Inl networkFault) (Inl networkFault)
       (ascii ''2024-01-01 10:00'')"

definition searchDownRemote :: Remote where
  "searchDownRemote =
     toolRemote ''searchTheWeb'' newsArgs (Inr [textPart (ascii ''ok'')])
       (Inl networkFault) (Inl networkFault)"

definition downGemini :: Gemini where
  "downGemini = scriptedGemini (Inl networkFault) (Inl networkFault) (Inl networkFault)"

text \<open>The state at mount on a platform without a synthesiser.\<close>

definition silentState :: State where
  "silentState = initialState None None False"

text \<open>A remote service whose first response asks for a tool \<open>fly\<close> that the client does not
  have, and one that answers with a plain text.\<close>

definition flyRemote :: Remote where
  "flyRemote = toolRemote ''fly'' None (Inl networkFault) (Inl networkFault) (Inl networkFault)"

definition plainRemote :: Remote where
  "plainRemote =
     scriptedRemote (Inr [textPart (ascii ''ok'')]) (Inl networkFault) (Inl networkFault)
       (Inl networkFault) (ascii ''2024-01-01 10:00'')"

text \<open>A remote service whose first response announces a tool in a text part and asks for
  the tool \<open>fly\<close>, which the client does not have, in the second part.\<close>

definition announcedFlyRemote :: Remote where
  "announcedFlyRemote =
     scriptedRemote (Inr [textPart (ascii ''one moment''), toolCall ''fly'' None])
       (Inl networkFault) (Inl networkFault) (Inl networkFault) (ascii ''2024-01-01 10:00'')"

text \<open>The chat of the logged-in user \<open>alice\<close>, with speaking on, a synthesiser, the given
  voices installed and the microphone listening.\<close>

definition listeningChat :: "SpeechSynthesisVoice list \<Rightarrow> State" where
  "listeningChat vs =
     (greet (handleLogin \<lparr>username = ascii ''alice''\<rparr> (initialState aliceStore None True)))
       \<lparr>voices := vs, isListening := True\<rparr>"

section \<open>First parts and blank texts\<close>

lemma firstPart_simps [simp]:
  "firstPart [] = None" "firstPart (part # rest) = Some part"
  by (simp_all add: firstPart_def)


lemma trim_Nil_iff: "trim s = [] \<longleftrightarrow> (\<forall>c\<in>set s. isWhiteSpace c)"
proof -
  have "(\<forall>c\<in>set (dropWhile isWhiteSpace s). isWhiteSpace c) \<longleftrightarrow> dropWhile isWhiteSpace s = []"
  proof
    assume a: "\<forall>c\<in>set (dropWhile isWhiteSpace s). isWhiteSpace c"
    show "dropWhile isWhiteSpace s = []"
    proof (rule ccontr)
      assume n: "dropWhile isWhiteSpace s \<noteq> []"
      then have "\<not> isWhiteSpace (hd (dropWhile isWhiteSpace s))" by (rule hd_dropWhile)
      moreover from n have "hd (dropWhile isWhiteSpace s) \<in> set (dropWhile isWhiteSpace s)" by simp
      ultimately show False using a by blast
    qed
  qed (auto dest: set_dropWhileD)
  then show ?thesis by (simp add: trim_def)
qed

section \<open>Sign-up and login\<close>

text \<open>
  C5. When the user name or the password is empty or consists of white space only, both
  \<open>handleSignup\<close> and the form's \<open>handleLogin\<close> show the validation error, and the state, with
  the credential store in it, is what it was.
\<close>

theorem C5_blank_field_is_validation_error:
  assumes "(\<forall>c\<in>set uname. isWhiteSpace c) \<or> (\<forall>c\<in>set pw. isWhiteSpace c)"
  shows "handleSignup uname pw s = (Inl ValidationError, s)
       \<and> handleLoginForm uname pw s = (Inl ValidationError, s)"
  using assms by (auto simp: handleSignup_def handleLoginForm_def trim_Nil_iff)

theorem C5_blank_field_witness:
  "trim (ascii ''  '') = []
   \<and> handleSignup (ascii ''  '') (ascii ''secret'') (initialState aliceStore None True)
       = (Inl ValidationError, initialState aliceStore None True)
   \<and> handleLoginForm (ascii ''  '') (ascii ''secret'') (initialState aliceStore None True)
       = (Inl ValidationError, initialState aliceStore None True)"
proof -
  have h: "\<forall>c\<in>set (ascii ''  ''). isWhiteSpace c"
    by (simp add: ascii_def isWhiteSpace_def)
  then show ?thesis
    using C5_blank_field_is_validation_error
            [of "ascii ''  ''" "ascii ''secret''" "initialState aliceStore None True"]
    by (simp add: trim_Nil_iff)
qed

lemma trim_alice: "trim (ascii ''alice'') = ascii ''alice''"
  by (simp add: trim_def ascii_def isWhiteSpace_def)

lemma trim_secret: "trim (ascii ''secret'') = ascii ''secret''"
  by (simp add: trim_def ascii_def isWhiteSpace_def)

lemma trim_guess: "trim (ascii ''guess'') = ascii ''guess''"
  by (simp add: trim_def ascii_def isWhiteSpace_def)

lemma trim_space: "trim (ascii '' '') = []"
  by (simp add: trim_def ascii_def isWhiteSpace_def)

lemma stored_alice:
  "storedCredential (initialState aliceStore None True) (ascii ''alice'')
     = Some \<lparr>password = ascii ''secret''\<rparr>"
  by (simp add: storedCredential_def parseUsers_def initialState_def aliceStore_def)

text \<open>
  C6, as stated, fails: the store holds \<open>alice\<close>, and a sign-up as \<open>alice\<close> with a blank
  password shows the validation error, not the duplicate-user error.
\<close>

theorem C6_blank_password_counterexample:
  "storedCredential (initialState aliceStore None True) (ascii ''alice'')
     = Some \<lparr>password = ascii ''secret''\<rparr>
   \<and> fst (handleSignup (ascii ''alice'') (ascii '' '') (initialState aliceStore None True))
     = Inl ValidationError"
  by (simp add: stored_alice handleSignup_def trim_space)

text \<open>
  C6, amended. When the store already holds a credential for the user name, a sign-up with
  that name shows the duplicate-user error if both fields are non-blank, and the validation
  error (checked first) if one is blank; either way the state, and so the credential kept
  for the name, is what it was.
\<close>

theorem C6_second_signup_rejected:
  assumes "storedCredential s uname = Some c"
  shows "handleSignup uname pw s =
           (if trim uname = [] \<or> trim pw = [] then Inl ValidationError
            else Inl DuplicateUserError, s)"
  using assms
  by (auto simp: handleSignup_def storedCredential_def hasTruthyProperty_def split: sum.splits)

theorem C6_second_signup_witness:
  "storedCredential (initialState aliceStore None True) (ascii ''alice'')
     = Some \<lparr>password = ascii ''secret''\<rparr>
   \<and> handleSignup (ascii ''alice'') (ascii ''guess'') (initialState aliceStore None True)
     = (Inl DuplicateUserError, initialState aliceStore None True)"
  using C6_second_signup_rejected [OF stored_alice, of "ascii ''guess''"]
  by (simp add: stored_alice trim_alice trim_guess) (simp add: ascii_def)

text \<open>
  C7, as stated, fails: the store holds \<open>alice\<close> with the password \<open>secret\<close>, and a login as
  \<open>alice\<close> with the non-matching password of one space shows the validation error, not the
  invalid-credentials error.
\<close>

theorem C7_blank_password_counterexample:
  "storedCredential (initialState aliceStore None True) (ascii ''alice'')
     = Some \<lparr>password = ascii ''secret''\<rparr>
   \<and> ascii ''secret'' \<noteq> ascii '' ''
   \<and> fst (handleLoginForm (ascii ''alice'') (ascii '' '') (initialState aliceStore None True))
     = Inl ValidationError"
  by (simp add: stored_alice handleLoginForm_def trim_space) (simp add: ascii_def)

text \<open>
  C7, amended. When the store holds a credential for the user name and both fields are
  non-blank, a login with a password other than the stored one shows the
  invalid-credentials error and changes nothing, and a login with the stored password passes
  the user of that name to the application's \<open>handleLogin\<close>. With a blank field the
  validation error comes first.
\<close>

theorem C7_login_checks_password:
  assumes "storedCredential s uname = Some c"
  shows "handleLoginForm uname pw s =
           (if trim uname = [] \<or> trim pw = [] then (Inl ValidationError, s)
            else if password c = pw
              then (Inr \<lparr>username = uname\<rparr>, handleLogin \<lparr>username = uname\<rparr> s)
            else (Inl InvalidCredentialsError, s))"
  using assms
  by (auto simp: handleLoginForm_def storedCredential_def hasTruthyProperty_def split: sum.splits)

theorem C7_login_witness:
  "storedCredential (initialState aliceStore None True) (ascii ''alice'')
     = Some \<lparr>password = ascii ''secret''\<rparr>
   \<and> handleLoginForm (ascii ''alice'') (ascii ''guess'') (initialState aliceStore None True)
     = (Inl InvalidCredentialsError, initialState aliceStore None True)
   \<and> handleLoginForm (ascii ''alice'') (ascii ''secret'') (initialState aliceStore None True)
     = (Inr \<lparr>username = ascii ''alice''\<rparr>,
        handleLogin \<lparr>username = ascii ''alice''\<rparr> (initialState aliceStore None True))"
  using C7_login_checks_password [OF stored_alice, of "ascii ''guess''"]
        C7_login_checks_password [OF stored_alice, of "ascii ''secret''"]
  by (simp add: stored_alice trim_alice trim_guess trim_secret) (simp add: ascii_def)

section \<open>Restoring the session\<close>

text \<open>
  C9, as stated, fails: a \<open>currentUser\<close> entry holding the empty string is present and
  \<open>JSON.parse\<close> rejects it, yet \<open>restore\<close> leaves the entry in place.
\<close>

theorem C9_empty_record_counterexample:
  "ls_currentUser (initialState None (Some EmptyText) True) = Some EmptyText
   \<and> parseJSON (EmptyText :: User item) = Inl SyntaxError
   \<and> ls_currentUser (restore (initialState None (Some EmptyText) True)) = Some EmptyText"
  by (simp add: restore_def initialState_def)

text \<open>
  C9, amended. At startup (no current user yet): with the entry absent, or present as the
  empty string, \<open>restore\<close> changes nothing and there is no user; with a non-empty entry that
  \<open>JSON.parse\<close> rejects, the entry is removed and there is no user; with the JSON text of a
  user, that user becomes the current user and the entry stays.
\<close>

theorem C9_restore_cases:
  assumes "currentUser s = None"
  shows "(ls_currentUser s = None \<or> ls_currentUser s = Some EmptyText \<longrightarrow> restore s = s)
       \<and> (\<forall>stored. ls_currentUser s = Some stored \<and> stored \<noteq> EmptyText
             \<and> parseJSON stored = Inl SyntaxError \<longrightarrow>
            currentUser (restore s) = None \<and> ls_currentUser (restore s) = None)
       \<and> (\<forall>user. ls_currentUser s = Some (Json user) \<longrightarrow>
            currentUser (restore s) = Some user \<and> ls_currentUser (restore s) = Some (Json user))"
  using assms by (auto simp: restore_def)

theorem C9_restore_witness:
  "restore (initialState None None True) = initialState None None True
   \<and> currentUser (restore (initialState None (Some Unparseable) True)) = None
   \<and> ls_currentUser (restore (initialState None (Some Unparseable) True)) = None
   \<and> currentUser (restore (initialState None (Some (Json \<lparr>username = ascii ''alice''\<rparr>)) True))
       = Some \<lparr>username = ascii ''alice''\<rparr>"
proof -
  have c: "\<And>u. currentUser (initialState None u True) = None"
    by (simp add: initialState_def)
  have l: "\<And>u. ls_currentUser (initialState None u True) = u"
    by (simp add: initialState_def)
  show ?thesis
    using C9_restore_cases [OF c [of None]] C9_restore_cases [OF c [of "Some Unparseable"]]
          C9_restore_cases [OF c [of "Some (Json \<lparr>username = ascii ''alice''\<rparr>)"]]
    by (simp add: l)
qed

section \<open>Chat turns\<close>

text \<open>
  C10. Submitting a text that is empty or consists of white space only is a no-op, in the
  Sinhala front end and in the bilingual one: the state after \<open>handleSendMessage\<close> is the
  state before, so nothing is appended to the messages, the loading flag and the status are
  untouched, and the trace records no remote call.
\<close>

theorem C10_blank_message_is_noop:
  assumes "\<forall>c\<in>set input. isWhiteSpace c"
  shows "handleSendMessage remote now1 now2 input s = s
       \<and> handleSendMessageBilingual gemini now1 nowSys now2 input s = s"
  using assms by (simp add: handleSendMessage_def handleSendMessageBilingual_def trim_Nil_iff)

theorem C10_blank_message_witness:
  "trim (ascii ''  '') = []
   \<and> handleSendMessage downRemote (ascii ''1'') (ascii ''2'') (ascii ''  '') silentState = silentState
   \<and> handleSendMessageBilingual downGemini (ascii ''1'') (ascii ''3'') (ascii ''2'') (ascii ''  '')
       silentState = silentState"
proof -
  have h: "\<forall>c\<in>set (ascii ''  ''). isWhiteSpace c"
    by (simp add: ascii_def isWhiteSpace_def)
  then show ?thesis
    using C10_blank_message_is_noop [of "ascii ''  ''"] by (simp add: trim_Nil_iff)
qed

text \<open>What a chat turn adds to the trace and to the messages.\<close>

lemma speak_trace [simp]: "trace (speak txt s) = trace s"
  by (simp add: speak_def Let_def split: option.splits)

lemma getAssistantResponse_first_call:
  "\<exists>rest. fst (getAssistantResponse remote message history)
            = RemoteCall (SendMessage message history) # rest"
  by (auto simp: getAssistantResponse_def Let_def split: sum.splits option.splits prod.splits)

lemma handleSendMessage_trace:
  assumes "trim txt \<noteq> []"
  shows "\<exists>rest. trace (handleSendMessage remote now1 now2 txt s)
            = trace s @ RemoteCall (SendMessage txt (wireHistory (messages s))) # rest"
proof -
  obtain effs r where g: "getAssistantResponse remote txt (wireHistory (messages s)) = (effs, r)"
    by (cases "getAssistantResponse remote txt (wireHistory (messages s))")
  obtain rest where e: "effs = RemoteCall (SendMessage txt (wireHistory (messages s))) # rest"
    using getAssistantResponse_first_call [of remote "txt" "wireHistory (messages s)"] g by auto
  show ?thesis
    using assms g e
    by (cases r) (simp_all add: handleSendMessage_def Let_def)
qed

lemma speak_messages:
  "messages (speak t s) =
     messages s @ (if isSpeakingEnabled s \<and> speechSynthesis s \<and> selectedVoice (voices s) = None
                      \<and> \<not> ttsWarningShown s then [warningMessage] else [])"
  by (simp add: speak_def Let_def split: option.splits)

lemma speak_shown:
  "ttsWarningShown (speak t s) \<longleftrightarrow>
     ttsWarningShown s \<or> (isSpeakingEnabled s \<and> speechSynthesis s \<and> selectedVoice (voices s) = None)"
  by (auto simp: speak_def Let_def split: option.splits)

lemma speak_other [simp]:
  "isSpeakingEnabled (speak t s) = isSpeakingEnabled s"
  "speechSynthesis (speak t s) = speechSynthesis s"
  "voices (speak t s) = voices s"
  "isLoading (speak t s) = isLoading s"
  "status (speak t s) = status s"
  by (simp_all add: speak_def Let_def split: option.splits)

lemma warning_role [simp]: "m_role warningMessage = SYSTEM"
  by (simp add: warningMessage_def)

lemma handleSendMessage_messages:
  assumes "trim txt \<noteq> []"
  shows "\<exists>m w. messages (handleSendMessage remote now1 now2 txt s)
                 = messages s @ [\<lparr>m_id = now1, m_role = USER, m_text = Some txt, m_imageUrl = None,
                                  m_searchResults = None\<rparr>, m] @ w
               \<and> m_role m = MODEL
               \<and> (w = [] \<and> (ttsWarningShown s \<longrightarrow> ttsWarningShown (handleSendMessage remote now1 now2 txt s))
                  \<or> w = [warningMessage] \<and> \<not> ttsWarningShown s
                      \<and> ttsWarningShown (handleSendMessage remote now1 now2 txt s))"
proof -
  obtain effs r where g: "getAssistantResponse remote txt (wireHistory (messages s)) = (effs, r)"
    by (cases "getAssistantResponse remote txt (wireHistory (messages s))")
  show ?thesis
    using assms g
    by (cases r) (auto simp: handleSendMessage_def Let_def speak_messages speak_shown)
qed

section \<open>Speech output\<close>

lemma exact_is_prefix: "lang v = targetLang \<Longrightarrow> startsWith (lang v) (ascii ''si'')"
  by (simp add: targetLang_def startsWith_def ascii_def)

lemma selectedVoice_exact:
  assumes "\<exists>v\<in>set vs. lang v = targetLang"
  shows "\<exists>v\<in>set vs. lang v = targetLang \<and> selectedVoice vs = Some v"
proof -
  from assms have "find (\<lambda>voice. lang voice = targetLang) vs \<noteq> None"
    by (auto simp: find_None_iff)
  then obtain v where f: "find (\<lambda>voice. lang voice = targetLang) vs = Some v" by blast
  then have "v \<in> set vs \<and> lang v = targetLang"
    by (auto simp: find_Some_iff)
  with f show ?thesis by (auto simp: selectedVoice_def)
qed

lemma selectedVoice_prefix:
  assumes "\<not> (\<exists>v\<in>set vs. lang v = targetLang)"
    and "\<exists>v\<in>set vs. startsWith (lang v) (ascii ''si'')"
  shows "\<exists>v\<in>set vs. startsWith (lang v) (ascii ''si'') \<and> selectedVoice vs = Some v"
proof -
  from assms(1) have n: "find (\<lambda>voice. lang voice = targetLang) vs = None"
    by (simp add: find_None_iff)
  from assms(2) have "find (\<lambda>voice. startsWith (lang voice) (ascii ''si'')) vs \<noteq> None"
    by (auto simp: find_None_iff)
  then obtain v where f: "find (\<lambda>voice. startsWith (lang voice) (ascii ''si'')) vs = Some v" by blast
  then have "v \<in> set vs \<and> startsWith (lang v) (ascii ''si'')"
    by (auto simp: find_Some_iff)
  with f n show ?thesis by (auto simp: selectedVoice_def)
qed

lemma selectedVoice_none:
  assumes "\<not> (\<exists>v\<in>set vs. lang v = targetLang)"
    and "\<not> (\<exists>v\<in>set vs. startsWith (lang v) (ascii ''si''))"
  shows "selectedVoice vs = None"
proof -
  from assms(1) have "find (\<lambda>voice. lang voice = targetLang) vs = None"
    by (auto simp: find_None_iff)
  moreover from assms(2) have "find (\<lambda>voice. startsWith (lang voice) (ascii ''si'')) vs = None"
    by (auto simp: find_None_iff)
  ultimately show ?thesis by (simp add: selectedVoice_def)
qed

lemma speak_utterances:
  assumes "isSpeakingEnabled s" "speechSynthesis s"
  shows "utterances (speak t s) =
           (case selectedVoice (voices s) of
              None \<Rightarrow> []
            | Some v \<Rightarrow> [\<lparr>u_text = t, u_voice = Some v, u_lang = targetLang\<rparr>])"
  using assms by (simp add: speak_def Let_def split: option.splits)

text \<open>
  One call of \<open>speak\<close>. When speaking is switched off or the platform has no synthesiser,
  \<open>speak\<close> does nothing. Otherwise it cancels the queue and speaks with a voice of the exact
  locale \<open>si-LK\<close> if one is installed, else with a voice whose language tag starts with \<open>si\<close>
  if one is installed, else with none: then nothing is spoken, and the notice is appended
  unless the flag \<open>ttsWarningShown\<close> it reads is set.
\<close>

theorem speak_voice_choice:
  "(\<not> (isSpeakingEnabled s \<and> speechSynthesis s) \<longrightarrow> speak t s = s)
   \<and> (isSpeakingEnabled s \<and> speechSynthesis s \<longrightarrow>
        ((\<exists>v\<in>set (voices s). lang v = targetLang) \<longrightarrow>
           (\<exists>v\<in>set (voices s). lang v = targetLang
              \<and> utterances (speak t s) = [\<lparr>u_text = t, u_voice = Some v, u_lang = targetLang\<rparr>]))
      \<and> (\<not> (\<exists>v\<in>set (voices s). lang v = targetLang)
           \<and> (\<exists>v\<in>set (voices s). startsWith (lang v) (ascii ''si'')) \<longrightarrow>
           (\<exists>v\<in>set (voices s). startsWith (lang v) (ascii ''si'')
              \<and> utterances (speak t s) = [\<lparr>u_text = t, u_voice = Some v, u_lang = targetLang\<rparr>]))
      \<and> (\<not> (\<exists>v\<in>set (voices s). lang v = targetLang)
           \<and> \<not> (\<exists>v\<in>set (voices s). startsWith (lang v) (ascii ''si'')) \<longrightarrow>
           utterances (speak t s) = []
           \<and> messages (speak t s) = messages s @ (if ttsWarningShown s then [] else [warningMessage])))"
proof (intro conjI impI)
  assume "\<not> (isSpeakingEnabled s \<and> speechSynthesis s)"
  then show "speak t s = s" by (auto simp: speak_def)
next
  assume on: "isSpeakingEnabled s \<and> speechSynthesis s"
    and ex: "\<exists>v\<in>set (voices s). lang v = targetLang"
  from selectedVoice_exact [OF ex] on
  show "\<exists>v\<in>set (voices s). lang v = targetLang
              \<and> utterances (speak t s) = [\<lparr>u_text = t, u_voice = Some v, u_lang = targetLang\<rparr>]"
    by (auto simp: speak_utterances)
next
  assume on: "isSpeakingEnabled s \<and> speechSynthesis s"
    and ex: "\<not> (\<exists>v\<in>set (voices s). lang v = targetLang)
           \<and> (\<exists>v\<in>set (voices s). startsWith (lang v) (ascii ''si''))"
  from ex have a: "\<not> (\<exists>v\<in>set (voices s). lang v = targetLang)"
    and b: "\<exists>v\<in>set (voices s). startsWith (lang v) (ascii ''si'')" by blast+
  from selectedVoice_prefix [OF a b] on
  show "\<exists>v\<in>set (voices s). startsWith (lang v) (ascii ''si'')
              \<and> utterances (speak t s) = [\<lparr>u_text = t, u_voice = Some v, u_lang = targetLang\<rparr>]"
    by (auto simp: speak_utterances)
next
  assume on: "isSpeakingEnabled s \<and> speechSynthesis s"
    and ex: "\<not> (\<exists>v\<in>set (voices s). lang v = targetLang)
           \<and> \<not> (\<exists>v\<in>set (voices s). startsWith (lang v) (ascii ''si''))"
  from ex have "selectedVoice (voices s) = None" by (simp add: selectedVoice_none)
  with on show "utterances (speak t s) = []" by (simp add: speak_utterances)
  from ex have "selectedVoice (voices s) = None" by (simp add: selectedVoice_none)
  with on show "messages (speak t s) = messages s @ (if ttsWarningShown s then [] else [warningMessage])"
    by (simp add: speak_messages)
qed

lemma voices_facts:
  "lang voiceSiLK = targetLang" "lang voiceSi \<noteq> targetLang" "lang voiceEnUS \<noteq> targetLang"
  "startsWith (lang voiceSi) (ascii ''si'')" "\<not> startsWith (lang voiceEnUS) (ascii ''si'')"
  "voiceSi \<noteq> voiceSiLK" "voiceEnUS \<noteq> voiceSiLK" "voiceEnUS \<noteq> voiceSi"
  by (simp_all add: voiceSiLK_def voiceSi_def voiceEnUS_def targetLang_def startsWith_def ascii_def)

lemma withVoices_facts [simp]:
  "isSpeakingEnabled (withVoices vs)" "speechSynthesis (withVoices vs)" "voices (withVoices vs) = vs"
  "\<not> ttsWarningShown (withVoices vs)" "messages (withVoices vs) = []"
  by (simp_all add: withVoices_def initialState_def)

lemma speak_voice_choice_examples:
  "utterances (speak (ascii ''hello'') (withVoices [voiceEnUS, voiceSi, voiceSiLK]))
     = [\<lparr>u_text = ascii ''hello'', u_voice = Some voiceSiLK, u_lang = targetLang\<rparr>]
   \<and> utterances (speak (ascii ''hello'') (withVoices [voiceEnUS, voiceSi]))
     = [\<lparr>u_text = ascii ''hello'', u_voice = Some voiceSi, u_lang = targetLang\<rparr>]
   \<and> utterances (speak (ascii ''hello'') (withVoices [voiceEnUS])) = []
   \<and> messages (speak (ascii ''hello'') (withVoices [voiceEnUS])) = [warningMessage]
   \<and> speak (ascii ''hello'') mutedState = mutedState"
  using speak_voice_choice [of "withVoices [voiceEnUS, voiceSi, voiceSiLK]" "ascii ''hello''"]
        speak_voice_choice [of "withVoices [voiceEnUS, voiceSi]" "ascii ''hello''"]
        speak_voice_choice [of "withVoices [voiceEnUS]" "ascii ''hello''"]
        speak_voice_choice [of mutedState "ascii ''hello''"]
  by (simp add: voices_facts mutedState_def initialState_def)

text \<open>
  The two phases of a turn, run one after the other with nothing in between, are
  \<open>handleSendMessage\<close>: the \<open>speak\<close> the turn holds then reads the flags of the state it acts on.
\<close>

lemma speakCaptured_own:
  assumes "t_voices turn = voices s" "t_isSpeakingEnabled turn = isSpeakingEnabled s"
    "t_ttsWarningShown turn = ttsWarningShown s"
  shows "speakCaptured turn txt s = speak txt s"
  using assms by (simp add: speakCaptured_def speak_def Let_def)

lemma handleSendMessage_phases:
  "handleSendMessage remote now1 now2 txt s =
     (case beginTurn now1 txt s of
        (None, s') \<Rightarrow> s'
      | (Some turn, s') \<Rightarrow> settleTurn remote now2 turn s')"
proof (cases "trim txt = []")
  case True
  then show ?thesis by (simp add: handleSendMessage_def beginTurn_def)
next
  case False
  obtain effs r where g: "getAssistantResponse remote txt (wireHistory (messages s)) = (effs, r)"
    by (cases "getAssistantResponse remote txt (wireHistory (messages s))")
  show ?thesis
    using False g
    by (cases r)
       (simp_all add: handleSendMessage_def beginTurn_def settleTurn_def Let_def speakCaptured_own)
qed

section \<open>The history sent to the remote call\<close>

lemma trim_time: "trim (ascii ''time?'') = ascii ''time?''"
  by (simp add: trim_def ascii_def isWhiteSpace_def)

lemma time_turn:
  "messages (handleSendMessage (toolRemote ''getCurrentTime'' None (Inr []) (Inl networkFault)
        (Inl networkFault)) (ascii ''1'') (ascii ''2'') (ascii ''time?'') (initialState None None True))
     = [timeQuestion, emptyTextMessage]"
  by (simp add: handleSendMessage_def trim_time getAssistantResponse_def callTool_def
        toolRemote_def scriptedRemote_def toolCall_def initialState_def timeQuestion_def
        emptyTextMessage_def truthy_def Let_def)
    (simp add: ascii_def)

text \<open>
  C3, as stated, fails. A turn that asks for the time, with a follow-up response that has
  no text, leaves a model message whose text is the empty string. Its text field is
  present, so the history as stated contains it; the history the code builds does not.
\<close>

theorem C3_empty_text_counterexample:
  "messages (handleSendMessage (toolRemote ''getCurrentTime'' None (Inr []) (Inl networkFault)
        (Inl networkFault)) (ascii ''1'') (ascii ''2'') (ascii ''time?'') (initialState None None True))
     = [timeQuestion, emptyTextMessage]
   \<and> m_role emptyTextMessage = MODEL \<and> m_text emptyTextMessage = Some []
   \<and> wireHistory [timeQuestion, emptyTextMessage] = [\<lparr>c_role = USER, parts = [ascii ''time?'']\<rparr>]
   \<and> historyAsStated [timeQuestion, emptyTextMessage]
       = [\<lparr>c_role = USER, parts = [ascii ''time?'']\<rparr>, \<lparr>c_role = MODEL, parts = [[]]\<rparr>]"
  by (simp add: time_turn)
     (simp add: wireHistory_def historyAsStated_def timeQuestion_def emptyTextMessage_def
        truthy_def ascii_def)

lemma truthy_iff: "truthy t \<longleftrightarrow> t \<noteq> None \<and> t \<noteq> Some []"
  by (simp add: truthy_def split: option.splits)

text \<open>
  C3, amended. The history passed to the remote call of a turn is exactly the messages of
  the store whose role is user or model and whose text is present and not the empty string,
  in order, each as \<open>{role, parts: [{text}]}\<close>; system messages, messages without text and
  messages with an empty text are left out. It is the history of the first remote call the
  turn makes.
\<close>

theorem C3_wire_history:
  assumes "trim txt \<noteq> []"
  shows "wireHistory (messages s) =
           map (\<lambda>m. \<lparr>c_role = m_role m, parts = [the (m_text m)]\<rparr>)
             (filter (\<lambda>m. (m_role m = USER \<or> m_role m = MODEL)
                           \<and> m_text m \<noteq> None \<and> m_text m \<noteq> Some []) (messages s))
       \<and> (\<exists>rest. trace (handleSendMessage remote now1 now2 txt s)
                    = trace s @ RemoteCall (SendMessage txt (wireHistory (messages s))) # rest)"
proof
  show "wireHistory (messages s) =
           map (\<lambda>m. \<lparr>c_role = m_role m, parts = [the (m_text m)]\<rparr>)
             (filter (\<lambda>m. (m_role m = USER \<or> m_role m = MODEL)
                           \<and> m_text m \<noteq> None \<and> m_text m \<noteq> Some []) (messages s))"
    by (simp add: wireHistory_def truthy_iff)
  show "\<exists>rest. trace (handleSendMessage remote now1 now2 txt s)
                    = trace s @ RemoteCall (SendMessage txt (wireHistory (messages s))) # rest"
    using assms by (rule handleSendMessage_trace)
qed

theorem C3_wire_history_witness:
  "trim (ascii ''time?'') \<noteq> []
   \<and> wireHistory (messages chatState) = [\<lparr>c_role = USER, parts = [ascii ''time?'']\<rparr>]
   \<and> (\<exists>rest. trace (handleSendMessage (toolRemote ''getCurrentTime'' None (Inr []) (Inl networkFault)
        (Inl networkFault)) (ascii ''3'') (ascii ''4'') (ascii ''time?'') chatState)
          = RemoteCall (SendMessage (ascii ''time?'') [\<lparr>c_role = USER, parts = [ascii ''time?'']\<rparr>]) # rest)"
proof -
  have nb: "trim (ascii ''time?'') \<noteq> []"
    by (simp add: trim_def ascii_def isWhiteSpace_def)
  have t: "trace chatState = []"
    by (simp add: chatState_def initialState_def)
  have m: "(filter (\<lambda>m. (m_role m = USER \<or> m_role m = MODEL) \<and> m_text m \<noteq> None \<and> m_text m \<noteq> Some [])
             (messages chatState)) = [timeQuestion]"
    by (simp add: chatState_def initialState_def warningMessage_def timeQuestion_def
          emptyTextMessage_def ascii_def)
  have q: "\<lparr>c_role = m_role timeQuestion, parts = [the (m_text timeQuestion)]\<rparr>
             = \<lparr>c_role = USER, parts = [ascii ''time?'']\<rparr>"
    by (simp add: timeQuestion_def)
  note th = C3_wire_history [OF nb, of chatState "toolRemote ''getCurrentTime'' None (Inr [])
        (Inl networkFault) (Inl networkFault)" "ascii ''3''" "ascii ''4''"]
  have w: "wireHistory (messages chatState) = [\<lparr>c_role = USER, parts = [ascii ''time?'']\<rparr>]"
    using th [THEN conjunct1] by (simp only: m list.map q)
  show ?thesis
    using nb w th [THEN conjunct2] by (simp add: t)
qed

section \<open>Tool calls\<close>

lemma tool_names [simp]:
  "ascii ''generateImage'' \<noteq> ascii ''searchTheWeb''"
  "ascii ''getCurrentTime'' \<noteq> ascii ''searchTheWeb''"
  "ascii ''getCurrentTime'' \<noteq> ascii ''generateImage''"
  "ascii ''searchTheWeb'' \<noteq> ascii ''generateImage''"
  "ascii ''searchTheWeb'' \<noteq> ascii ''getCurrentTime''"
  "ascii ''generateImage'' \<noteq> ascii ''getCurrentTime''"
  by (simp_all add: ascii_def)




section \<open>Thrown values and the boundary\<close>

lemma loggedBy_append: "loggedBy (xs @ ys) = loggedBy xs @ loggedBy ys"
  by (induction xs rule: loggedBy.induct) simp_all

lemma tool_labels [simp]:
  "ascii ''Error searching with Gemini:'' \<noteq> ascii ''Error with assistant:''"
  "ascii ''Error generating image with Gemini:'' \<noteq> ascii ''Error with assistant:''"
  by (simp_all add: ascii_def)

lemma loggedBy_search [simp]: "loggedBy (fst (performWebSearch remote q)) = []"
  by (simp add: performWebSearch_def Let_def split: sum.splits)

lemma loggedBy_image [simp]: "loggedBy (fst (performImageGeneration remote p)) = []"
  by (simp add: performImageGeneration_def split: sum.splits option.splits list.splits)

lemma loggedBy_callTool [simp]: "loggedBy (fst (callTool remote fc)) = []"
  by (simp add: callTool_def case_prod_beta split: option.splits)

lemma loggedBy_assistant [simp]: "loggedBy (fst (getAssistantResponse remote message history)) = []"
proof -
  have "\<And>fc effs r. callTool remote fc = (effs, r) \<Longrightarrow> loggedBy effs = []"
    using loggedBy_callTool [of remote] by (metis fst_conv)
  then show ?thesis
    by (auto simp: getAssistantResponse_def Let_def loggedBy_append
        split: sum.splits option.splits prod.splits)
qed

lemma assistantErrors_speak [simp]: "assistantErrors (speak t s) = assistantErrors s"
  by (simp add: assistantErrors_def)

lemma handleSendMessage_errors:
  assumes "trim txt \<noteq> []"
  shows "assistantErrors (handleSendMessage remote now1 now2 txt s) =
           assistantErrors s
             @ (case snd (getAssistantResponse remote txt (wireHistory (messages s))) of
                  Inl e \<Rightarrow> [e] | Inr response \<Rightarrow> [])"
proof -
  obtain effs r where g: "getAssistantResponse remote txt (wireHistory (messages s)) = (effs, r)"
    by (cases "getAssistantResponse remote txt (wireHistory (messages s))")
  have l: "loggedBy effs = []"
    using loggedBy_assistant [of remote "txt" "wireHistory (messages s)"] g by simp
  show ?thesis
    using assms g l
    by (cases r) (simp_all add: handleSendMessage_def Let_def assistantErrors_def loggedBy_append)
qed

lemma apology_truthy: "truthy (Some assistantErrorText)"
  by (simp add: truthy_def assistantErrorText_def)

lemma handleSendMessage_thrown:
  assumes nb: "trim txt \<noteq> []"
    and thrown: "snd (getAssistantResponse remote txt (wireHistory (messages s))) = Inl e"
  shows "\<exists>notice.
           messages (handleSendMessage remote now1 now2 txt s)
             = messages s
               @ [\<lparr>m_id = now1, m_role = USER, m_text = Some txt, m_imageUrl = None,
                   m_searchResults = None\<rparr>,
                  \<lparr>m_id = now2 @ ascii ''-model'', m_role = MODEL,
                   m_text = Some assistantErrorText, m_imageUrl = None, m_searchResults = None\<rparr>]
               @ notice
         \<and> (notice = [] \<or> notice = [warningMessage])
         \<and> \<not> isLoading (handleSendMessage remote now1 now2 txt s)
         \<and> status (handleSendMessage remote now1 now2 txt s) = statusOnline
         \<and> assistantErrors (handleSendMessage remote now1 now2 txt s) = assistantErrors s @ [e]"
proof -
  obtain effs where g: "getAssistantResponse remote txt (wireHistory (messages s)) = (effs, Inl e)"
    using thrown by (cases "getAssistantResponse remote txt (wireHistory (messages s))") simp
  have m: "\<exists>notice.
           messages (handleSendMessage remote now1 now2 txt s)
             = messages s
               @ [\<lparr>m_id = now1, m_role = USER, m_text = Some txt, m_imageUrl = None,
                   m_searchResults = None\<rparr>,
                  \<lparr>m_id = now2 @ ascii ''-model'', m_role = MODEL,
                   m_text = Some assistantErrorText, m_imageUrl = None, m_searchResults = None\<rparr>]
               @ notice
         \<and> (notice = [] \<or> notice = [warningMessage])"
    using nb g by (simp add: handleSendMessage_def Let_def apology_truthy speak_messages)
  have f: "\<not> isLoading (handleSendMessage remote now1 now2 txt s)
         \<and> status (handleSendMessage remote now1 now2 txt s) = statusOnline"
    using nb g by (simp add: handleSendMessage_def Let_def apology_truthy)
  have a: "assistantErrors (handleSendMessage remote now1 now2 txt s) = assistantErrors s @ [e]"
    using handleSendMessage_errors [OF nb, of remote now1 now2 s] thrown by simp
  from m f a show ?thesis by blast
qed

lemma chat_fault_thrown:
  assumes "sendMessage remote message history = Inl e
         \<or> (\<exists>part rest fc effs payload.
               sendMessage remote message history = Inr (part # rest)
             \<and> functionCall part = Some fc
             \<and> callTool remote fc = (effs, Inr payload)
             \<and> sendFunctionResponse remote message history (name fc) payload = Inl e)"
  shows "snd (getAssistantResponse remote message history) = Inl e"
  using assms by (auto simp: getAssistantResponse_def firstPart_def Let_def)

lemma unknown_tool_thrown:
  assumes "sendMessage remote message history = Inr (part # rest)"
    and "functionCall part = Some fc"
    and "name fc \<notin> {Some (ascii ''searchTheWeb''), Some (ascii ''generateImage''),
                    Some (ascii ''getCurrentTime'')}"
  shows "getAssistantResponse remote message history
           = ([RemoteCall (SendMessage message history)],
              Inl (Error (ascii ''Unknown function call: '' @ interpolate (name fc))))"
  using assms by (simp add: getAssistantResponse_def firstPart_def callTool_def)

lemma speakBilingual_fields [simp]:
  "messages (speakBilingual t s) = messages s"
  "isLoading (speakBilingual t s) = isLoading s"
  "trace (speakBilingual t s) = trace s"
  by (simp_all add: speakBilingual_def)

lemma english_apology_truthy:
  "truthy (Some (ascii ''I'm sorry, I encountered an error. Please try again.''))"
  by (simp add: truthy_def ascii_def)

lemma bilingual_chat_fault:
  assumes nb: "trim txt \<noteq> []"
    and plain: "imageMatch txt = None" "openMatch txt = None" "\<not> timeMatch txt" "\<not> searchMatch txt"
    and fault: "chat_sendMessage gemini txt = Inl e"
  shows "messages (handleSendMessageBilingual gemini now1 nowSys now2 txt s)
           = messages s
             @ [\<lparr>m_id = now1, m_role = USER, m_text = Some txt, m_imageUrl = None,
                 m_searchResults = None\<rparr>,
                \<lparr>m_id = now2 @ ascii ''-model'', m_role = MODEL,
                 m_text = Some (ascii ''I'm sorry, I encountered an error. Please try again.''),
                 m_imageUrl = None, m_searchResults = None\<rparr>]
       \<and> \<not> isLoading (handleSendMessageBilingual gemini now1 nowSys now2 txt s)"
  using assms
  by (simp add: handleSendMessageBilingual_def routeCommand_def sendMessageToGemini_def Let_def
        english_apology_truthy)

lemma search_fault_caught:
  assumes "generateContent remote (searchContents q) = Inl e"
  shows "performWebSearch remote q
           = ([RemoteCall (GenerateContent (searchContents q)),
               ConsoleError (ascii ''Error searching with Gemini:'') e],
              SearchPayload (Some searchFailedSummary) [])"
  using assms by (simp add: performWebSearch_def)

lemma image_fault_caught:
  assumes "generateImages remote p = Inl e"
  shows "performImageGeneration remote p
           = ([RemoteCall (GenerateImages p),
               ConsoleError (ascii ''Error generating image with Gemini:'') e],
              ErrorPayload imageFaultError)"
  using assms by (simp add: performImageGeneration_def)

lemma handleSendMessage_done:
  assumes "trim txt \<noteq> []"
  shows "\<not> isLoading (handleSendMessage remote now1 now2 txt s)"
    and "status (handleSendMessage remote now1 now2 txt s) = statusOnline"
  using assms by (simp_all add: handleSendMessage_def Let_def split: prod.splits)

text \<open>
  C4, amended. (1) In the Sinhala front end, when the first \<open>sendMessage\<close> of a turn or the
  follow-up \<open>sendMessage\<close> that carries the tool result fails, the fault is caught by
  \<open>handleSendMessage\<close>: the turn appends the user message and a model message with the fixed
  Sinhala apology (followed at most by the one voice notice), logs the fault, and ends with
  the loading flag off and the status online. (2, 3) A fault of the search call or of the
  image call is caught inside the tool and replaced by the fixed summary, or the fixed error
  text, of the payload handed to the model; the turn goes on. (4) In the bilingual front
  end, when the chat call of a plain message fails, the turn appends the fixed English
  apology. (5) Whatever the remote calls do, a turn of the Sinhala front end runs to its
  end: it appends the user message and exactly one model message (followed at most by the
  one voice notice) and ends with the loading flag off and the status online; no fault
  leaves \<open>handleSendMessage\<close>.
\<close>

theorem C4_chat_fault_becomes_apology:
  "(trim input \<noteq> []
      \<and> (sendMessage remote input (wireHistory (messages s)) = Inl e
         \<or> (\<exists>part rest fc effs payload.
               sendMessage remote input (wireHistory (messages s)) = Inr (part # rest)
             \<and> functionCall part = Some fc
             \<and> callTool remote fc = (effs, Inr payload)
             \<and> sendFunctionResponse remote input (wireHistory (messages s)) (name fc) payload = Inl e))
    \<longrightarrow> (\<exists>notice.
           messages (handleSendMessage remote now1 now2 input s)
             = messages s
               @ [\<lparr>m_id = now1, m_role = USER, m_text = Some input, m_imageUrl = None,
                   m_searchResults = None\<rparr>,
                  \<lparr>m_id = now2 @ ascii ''-model'', m_role = MODEL,
                   m_text = Some assistantErrorText, m_imageUrl = None, m_searchResults = None\<rparr>]
               @ notice
         \<and> (notice = [] \<or> notice = [warningMessage])
         \<and> \<not> isLoading (handleSendMessage remote now1 now2 input s)
         \<and> status (handleSendMessage remote now1 now2 input s) = statusOnline
         \<and> assistantErrors (handleSendMessage remote now1 now2 input s) = assistantErrors s @ [e]))
   \<and> (generateContent remote (searchContents q) = Inl e1
    \<longrightarrow> performWebSearch remote q
           = ([RemoteCall (GenerateContent (searchContents q)),
               ConsoleError (ascii ''Error searching with Gemini:'') e1],
              SearchPayload (Some searchFailedSummary) []))
   \<and> (generateImages remote p = Inl e2
    \<longrightarrow> performImageGeneration remote p
           = ([RemoteCall (GenerateImages p),
               ConsoleError (ascii ''Error generating image with Gemini:'') e2],
              ErrorPayload imageFaultError))
   \<and> (trim input \<noteq> [] \<and> imageMatch input = None \<and> openMatch input = None \<and> \<not> timeMatch input
        \<and> \<not> searchMatch input \<and> chat_sendMessage gemini input = Inl e3
    \<longrightarrow> messages (handleSendMessageBilingual gemini now1 nowSys now2 input s)
           = messages s
             @ [\<lparr>m_id = now1, m_role = USER, m_text = Some input, m_imageUrl = None,
                 m_searchResults = None\<rparr>,
                \<lparr>m_id = now2 @ ascii ''-model'', m_role = MODEL,
                 m_text = Some (ascii ''I'm sorry, I encountered an error. Please try again.''),
                 m_imageUrl = None, m_searchResults = None\<rparr>]
       \<and> \<not> isLoading (handleSendMessageBilingual gemini now1 nowSys now2 input s))
   \<and> (trim input \<noteq> []
    \<longrightarrow> (\<exists>m notice.
           messages (handleSendMessage remote now1 now2 input s)
             = messages s
               @ [\<lparr>m_id = now1, m_role = USER, m_text = Some input, m_imageUrl = None,
                   m_searchResults = None\<rparr>, m]
               @ notice
         \<and> m_role m = MODEL \<and> (notice = [] \<or> notice = [warningMessage]))
       \<and> \<not> isLoading (handleSendMessage remote now1 now2 input s)
       \<and> status (handleSendMessage remote now1 now2 input s) = statusOnline)"
proof (intro conjI impI)
  assume a: "trim input \<noteq> []
      \<and> (sendMessage remote input (wireHistory (messages s)) = Inl e
         \<or> (\<exists>part rest fc effs payload.
               sendMessage remote input (wireHistory (messages s)) = Inr (part # rest)
             \<and> functionCall part = Some fc
             \<and> callTool remote fc = (effs, Inr payload)
             \<and> sendFunctionResponse remote input (wireHistory (messages s)) (name fc) payload = Inl e))"
  then have nb: "trim input \<noteq> []" by blast
  from a have "snd (getAssistantResponse remote input (wireHistory (messages s))) = Inl e"
    by (intro chat_fault_thrown) blast
  with nb show "\<exists>notice.
           messages (handleSendMessage remote now1 now2 input s)
             = messages s
               @ [\<lparr>m_id = now1, m_role = USER, m_text = Some input, m_imageUrl = None,
                   m_searchResults = None\<rparr>,
                  \<lparr>m_id = now2 @ ascii ''-model'', m_role = MODEL,
                   m_text = Some assistantErrorText, m_imageUrl = None, m_searchResults = None\<rparr>]
               @ notice
         \<and> (notice = [] \<or> notice = [warningMessage])
         \<and> \<not> isLoading (handleSendMessage remote now1 now2 input s)
         \<and> status (handleSendMessage remote now1 now2 input s) = statusOnline
         \<and> assistantErrors (handleSendMessage remote now1 now2 input s) = assistantErrors s @ [e]"
    by (rule handleSendMessage_thrown)
next
  assume "generateContent remote (searchContents q) = Inl e1"
  then show "performWebSearch remote q
           = ([RemoteCall (GenerateContent (searchContents q)),
               ConsoleError (ascii ''Error searching with Gemini:'') e1],
              SearchPayload (Some searchFailedSummary) [])"
    by (rule search_fault_caught)
next
  assume "generateImages remote p = Inl e2"
  then show "performImageGeneration remote p
           = ([RemoteCall (GenerateImages p),
               ConsoleError (ascii ''Error generating image with Gemini:'') e2],
              ErrorPayload imageFaultError)"
    by (rule image_fault_caught)
next
  assume b: "trim input \<noteq> [] \<and> imageMatch input = None \<and> openMatch input = None \<and> \<not> timeMatch input
        \<and> \<not> searchMatch input \<and> chat_sendMessage gemini input = Inl e3"
  then have r: "messages (handleSendMessageBilingual gemini now1 nowSys now2 input s)
           = messages s
             @ [\<lparr>m_id = now1, m_role = USER, m_text = Some input, m_imageUrl = None,
                 m_searchResults = None\<rparr>,
                \<lparr>m_id = now2 @ ascii ''-model'', m_role = MODEL,
                 m_text = Some (ascii ''I'm sorry, I encountered an error. Please try again.''),
                 m_imageUrl = None, m_searchResults = None\<rparr>]
       \<and> \<not> isLoading (handleSendMessageBilingual gemini now1 nowSys now2 input s)"
    by (intro bilingual_chat_fault) blast+
  from r show "messages (handleSendMessageBilingual gemini now1 nowSys now2 input s)
           = messages s
             @ [\<lparr>m_id = now1, m_role = USER, m_text = Some input, m_imageUrl = None,
                 m_searchResults = None\<rparr>,
                \<lparr>m_id = now2 @ ascii ''-model'', m_role = MODEL,
                 m_text = Some (ascii ''I'm sorry, I encountered an error. Please try again.''),
                 m_imageUrl = None, m_searchResults = None\<rparr>]" by blast
  from r show "\<not> isLoading (handleSendMessageBilingual gemini now1 nowSys now2 input s)" by blast
next
  assume nb: "trim input \<noteq> []"
  from handleSendMessage_messages [OF nb, of remote now1 now2 s]
  show "\<exists>m notice.
           messages (handleSendMessage remote now1 now2 input s)
             = messages s
               @ [\<lparr>m_id = now1, m_role = USER, m_text = Some input, m_imageUrl = None,
                   m_searchResults = None\<rparr>, m]
               @ notice
         \<and> m_role m = MODEL \<and> (notice = [] \<or> notice = [warningMessage])"
    by blast
  from nb show "\<not> isLoading (handleSendMessage remote now1 now2 input s)"
    by (simp add: handleSendMessage_done)
  from nb show "status (handleSendMessage remote now1 now2 input s) = statusOnline"
    by (simp add: handleSendMessage_done)
qed

lemma trim_hello: "trim (ascii ''hello'') = ascii ''hello''"
  by (simp add: trim_def ascii_def isWhiteSpace_def)

lemma trim_news: "trim (ascii ''news?'') = ascii ''news?''"
  by (simp add: trim_def ascii_def isWhiteSpace_def)

lemma hello_nonempty: "ascii ''hello'' \<noteq> []" "ascii ''news?'' \<noteq> []"
  by (simp_all add: ascii_def)

lemma hello_plain:
  "imageMatch (ascii ''hello'') = None" "openMatch (ascii ''hello'') = None"
  "\<not> timeMatch (ascii ''hello'')" "\<not> searchMatch (ascii ''hello'')"
  by (simp_all add: imageMatch_def openMatch_def searchMatch_def ascii_def canonicalize_def)

text \<open>
  C4, as stated, fails: the search call made by the search tool fails, the fault is caught
  inside the tool, and the turn ends by appending the model's answer \<open>ok\<close>, not an apology.
\<close>

theorem C4_tool_fault_counterexample:
  "generateContent searchDownRemote (searchContents (Some (ascii ''news''))) = Inl networkFault
   \<and> trace (handleSendMessage searchDownRemote (ascii ''1'') (ascii ''2'') (ascii ''news?'') silentState)
       = [RemoteCall (SendMessage (ascii ''news?'') []),
          RemoteCall (GenerateContent (searchContents (Some (ascii ''news'')))),
          ConsoleError (ascii ''Error searching with Gemini:'') networkFault,
          RemoteCall (SendFunctionResponse (Some (ascii ''searchTheWeb''))
            (SearchPayload (Some searchFailedSummary) []))]
   \<and> map m_text (messages (handleSendMessage searchDownRemote (ascii ''1'') (ascii ''2'')
         (ascii ''news?'') silentState))
       = [Some (ascii ''news?''), Some (ascii ''ok'')]
   \<and> ascii ''ok'' \<noteq> assistantErrorText"
  by (simp add: handleSendMessage_def trim_news hello_nonempty getAssistantResponse_def callTool_def
        performWebSearch_def searchDownRemote_def toolRemote_def scriptedRemote_def toolCall_def
        newsArgs_def textPart_def silentState_def initialState_def wireHistory_def truthy_def
        speak_def Let_def)
     (simp add: ascii_def assistantErrorText_def)

theorem C4_chat_fault_witness:
  "messages (handleSendMessage downRemote (ascii ''1'') (ascii ''2'') (ascii ''hello'') silentState)
     = [\<lparr>m_id = ascii ''1'', m_role = USER, m_text = Some (ascii ''hello''), m_imageUrl = None,
         m_searchResults = None\<rparr>,
        \<lparr>m_id = ascii ''2'' @ ascii ''-model'', m_role = MODEL,
         m_text = Some assistantErrorText, m_imageUrl = None, m_searchResults = None\<rparr>]
   \<and> snd (performWebSearch downRemote (Some (ascii ''news''))) = SearchPayload (Some searchFailedSummary) []
   \<and> snd (performImageGeneration downRemote (Some (ascii ''a cat''))) = ErrorPayload imageFaultError
   \<and> map m_text (messages (handleSendMessageBilingual downGemini (ascii ''1'') (ascii ''3'')
         (ascii ''2'') (ascii ''hello'') silentState))
       = [Some (ascii ''hello''), Some (ascii ''I'm sorry, I encountered an error. Please try again.'')]"
proof -
  have nb: "trim (ascii ''hello'') \<noteq> []"
    by (simp add: trim_hello hello_nonempty)
  have f: "sendMessage downRemote (ascii ''hello'') (wireHistory (messages silentState)) = Inl networkFault"
    "generateContent downRemote (searchContents (Some (ascii ''news''))) = Inl networkFault"
    "generateImages downRemote (Some (ascii ''a cat'')) = Inl networkFault"
    by (simp_all add: downRemote_def scriptedRemote_def)
  have g: "chat_sendMessage downGemini (ascii ''hello'') = Inl networkFault"
    by (simp add: downGemini_def scriptedGemini_def)
  have m: "messages silentState = []" "\<not> speechSynthesis silentState"
    by (simp_all add: silentState_def initialState_def)
  have n: "messages (handleSendMessage downRemote (ascii ''1'') (ascii ''2'') (ascii ''hello'') silentState)
            \<noteq> [\<lparr>m_id = ascii ''1'', m_role = USER, m_text = Some (ascii ''hello''), m_imageUrl = None,
         m_searchResults = None\<rparr>,
        \<lparr>m_id = ascii ''2'' @ ascii ''-model'', m_role = MODEL,
         m_text = Some assistantErrorText, m_imageUrl = None, m_searchResults = None\<rparr>, warningMessage]"
    using nb f(1) m by (simp add: handleSendMessage_def getAssistantResponse_def speak_def Let_def)
  show ?thesis
    using C4_chat_fault_becomes_apology [where input = "ascii ''hello''" and remote = downRemote and s = silentState
            and e = networkFault and ?now1.0 = "ascii ''1''" and ?now2.0 = "ascii ''2''"
            and q = "Some (ascii ''news'')" and ?e1.0 = networkFault
            and p = "Some (ascii ''a cat'')" and ?e2.0 = networkFault
            and gemini = downGemini and ?e3.0 = networkFault and nowSys = "ascii ''3''"]
          nb f g hello_plain m n
    by auto
qed

text \<open>
  The code guards against a tool it does not have. When the first part of the first
  response carries a function call whose name is none of \<open>searchTheWeb\<close>, \<open>generateImage\<close> and
  \<open>getCurrentTime\<close>, \<open>getAssistantResponse\<close> makes no further call and throws
  \<open>Error("Unknown function call: NAME")\<close>. The turn logs that error under
  \<open>Error with assistant:\<close>, which no turn whose assistant call returns does: from the same
  state and input, the two turns end in different states.
\<close>

theorem unknown_tool_in_first_part_is_an_error:
  assumes first: "sendMessage remote message history = Inr (part # rest)"
    and call: "functionCall part = Some fc"
    and unknown: "name fc \<notin> {Some (ascii ''searchTheWeb''), Some (ascii ''generateImage''),
                            Some (ascii ''getCurrentTime'')}"
  shows "getAssistantResponse remote message history
           = ([RemoteCall (SendMessage message history)],
              Inl (Error (ascii ''Unknown function call: '' @ interpolate (name fc))))
       \<and> (\<forall>s now1 now2. trim message \<noteq> [] \<and> wireHistory (messages s) = history \<longrightarrow>
             assistantErrors (handleSendMessage remote now1 now2 message s)
               = assistantErrors s @ [Error (ascii ''Unknown function call: '' @ interpolate (name fc))]
           \<and> (\<forall>remote' effs response.
                 getAssistantResponse remote' message history = (effs, Inr response) \<longrightarrow>
                 assistantErrors (handleSendMessage remote' now1 now2 message s) = assistantErrors s
               \<and> handleSendMessage remote' now1 now2 message s
                   \<noteq> handleSendMessage remote now1 now2 message s))"
proof (intro conjI allI impI)
  show g: "getAssistantResponse remote message history
           = ([RemoteCall (SendMessage message history)],
              Inl (Error (ascii ''Unknown function call: '' @ interpolate (name fc))))"
    using first call unknown by (rule unknown_tool_thrown)
  fix s :: State and now1 now2
  assume a: "trim message \<noteq> [] \<and> wireHistory (messages s) = history"
  then have nb: "trim message \<noteq> []" and h: "wireHistory (messages s) = history" by blast+
  show u: "assistantErrors (handleSendMessage remote now1 now2 message s)
          = assistantErrors s @ [Error (ascii ''Unknown function call: '' @ interpolate (name fc))]"
    using handleSendMessage_errors [OF nb, of remote now1 now2 s] g h by simp
  fix remote' effs response
  assume ok: "getAssistantResponse remote' message history = (effs, Inr response)"
  show v: "assistantErrors (handleSendMessage remote' now1 now2 message s) = assistantErrors s"
    using handleSendMessage_errors [OF nb, of remote' now1 now2 s] ok h by simp
  show "handleSendMessage remote' now1 now2 message s \<noteq> handleSendMessage remote now1 now2 message s"
  proof
    assume "handleSendMessage remote' now1 now2 message s = handleSendMessage remote now1 now2 message s"
    then have "assistantErrors (handleSendMessage remote' now1 now2 message s)
             = assistantErrors (handleSendMessage remote now1 now2 message s)" by simp
    with u v show False by simp
  qed
qed

lemma unknown_tool_in_first_part_example:
  "getAssistantResponse flyRemote (ascii ''hello'') []
     = ([RemoteCall (SendMessage (ascii ''hello'') [])],
        Inl (Error (ascii ''Unknown function call: fly'')))"
  by (simp add: getAssistantResponse_def callTool_def flyRemote_def toolRemote_def
        scriptedRemote_def toolCall_def interpolate_def)
     (simp add: ascii_def)

text \<open>
  C2. The code breaks the claim. The guard reads the first part of the response only. A
  response that announces the tool in a first text part and asks for the unknown tool
  \<open>fly\<close> in its second part is answered like a plain text: \<open>getAssistantResponse\<close> returns the
  announcement with no error, and the turn appends it as the model's answer and logs
  nothing under \<open>Error with assistant:\<close>, exactly as the turn of a service that sends the same
  text with no function call at all.
\<close>

theorem C2_later_part_call_ignored:
  "sendMessage announcedFlyRemote (ascii ''hello'') (wireHistory (messages (listeningChat [voiceSiLK])))
     = Inr [textPart (ascii ''one moment''), toolCall ''fly'' None]
   \<and> functionCall (toolCall ''fly'' None) = Some \<lparr>name = Some (ascii ''fly''), args = None\<rparr>
   \<and> getAssistantResponse announcedFlyRemote (ascii ''hello'')
         (wireHistory (messages (listeningChat [voiceSiLK])))
       = ([RemoteCall (SendMessage (ascii ''hello'') (wireHistory (messages (listeningChat [voiceSiLK]))))],
          Inr \<lparr>r_text = Some (ascii ''one moment''), r_imageUrl = None, r_searchResults = None\<rparr>)
   \<and> assistantErrors (handleSendMessage announcedFlyRemote (ascii ''1'') (ascii ''2'') (ascii ''hello'')
         (listeningChat [voiceSiLK])) = []
   \<and> map m_text (drop 1 (messages (handleSendMessage announcedFlyRemote (ascii ''1'') (ascii ''2'')
         (ascii ''hello'') (listeningChat [voiceSiLK]))))
       = [Some (ascii ''hello''), Some (ascii ''one moment'')]"
  by (simp add: handleSendMessage_def trim_hello hello_nonempty getAssistantResponse_def
        announcedFlyRemote_def scriptedRemote_def textPart_def toolCall_def listeningChat_def
        greet_def handleLogin_def initialState_def truthy_def speak_def selectedVoice_def
        voices_facts assistantErrors_def Let_def)
     (simp add: ascii_def)

section \<open>Overlapping turns\<close>

text \<open>
  C8. The code breaks the claim's "at most once per session". The user \<open>alice\<close> is logged
  in, speaking is on, no Sinhala voice is installed and the microphone is listening. She
  submits \<open>hello\<close>, and while that turn awaits the assistant the recogniser delivers
  \<open>news?\<close>, which starts a second turn. Each pending turn holds the \<open>speak\<close> of a render in
  which \<open>ttsWarningShown\<close> was still false, so when the two calls settle each appends the
  notice: two notices. The same two turns one after the other append one.
\<close>

theorem C8_overlapping_turns_repeat_notice:
  "noticeCount (listeningChat [voiceEnUS]) = 0
   \<and> noticeCount (fst (run [Begin (ascii ''1'') (ascii ''hello''), Begin (ascii ''2'') (ascii ''news?''),
                             Settle 0 plainRemote (ascii ''3''), Settle 0 plainRemote (ascii ''4'')]
                        (listeningChat [voiceEnUS], []))) = 2
   \<and> noticeCount (fst (run [Begin (ascii ''1'') (ascii ''hello''), Settle 0 plainRemote (ascii ''3''),
                             Begin (ascii ''2'') (ascii ''news?''), Settle 0 plainRemote (ascii ''4'')]
                        (listeningChat [voiceEnUS], []))) = 1"
  by (simp add: noticeCount_def listeningChat_def greet_def handleLogin_def initialState_def
        beginTurn_def settleTurn_def speakCaptured_def selectedVoice_def getAssistantResponse_def
        plainRemote_def scriptedRemote_def textPart_def trim_hello trim_news hello_nonempty
        truthy_def wireHistory_def voices_facts Let_def)
     (simp add: warningMessage_def ascii_def)


end
